theory Spec2Isabelle
  imports Main "HOL-Library.Word"
begin

unbundle bit_operations_syntax

section \<open>The Go values of \<^verbatim>\<open>cli/internal/utils/pki.go\<close>\<close>

text \<open>
  Bytes are 8-bit words, a Go \<^verbatim>\<open>string\<close> is a list of characters (one per byte), a
  \<^verbatim>\<open>[]byte\<close> is a list of bytes. A Go \<^verbatim>\<open>error\<close> value is its message. A call that
  ends the process (\<^verbatim>\<open>logrus.Fatal\<close>, \<^verbatim>\<open>logrus.Fatalf\<close>), a panic, or a fatal error
  thrown by the Go runtime yields a \<open>failure\<close>, which every caller passes on unchanged.
\<close>

type_synonym u8 = "8 word"

datatype error = Error string

datatype failure = Fatal string | Panic string | Throw string

fun error_msg :: "error \<Rightarrow> string" where
  "error_msg (Error m) = m"

definition string_of_bytes :: "u8 list \<Rightarrow> string" where
  "string_of_bytes bs = map (\<lambda>b. char_of (unat b)) bs"

definition byte_of_char :: "char \<Rightarrow> u8" where
  "byte_of_char c = of_nat (of_char c)"

section \<open>Constants\<close>

text \<open>\<^verbatim>\<open>const org = "Zarf Utility Cluster"\<close>\<close>

definition org :: string where
  "org = ''Zarf Utility Cluster''"

text \<open>\<^verbatim>\<open>time.Duration\<close> counts nanoseconds; \<^verbatim>\<open>time.Hour\<close> is \<open>3600 * 10^9\<close> of them.\<close>

definition time_Hour :: int where
  "time_Hour = 60 * (60 * (1000 * (1000 * 1000)))"

text \<open>\<^verbatim>\<open>const validFor = time.Hour * 24 * 375\<close>\<close>

definition validFor :: int where
  "validFor = time_Hour * 24 * 375"

text \<open>\<^verbatim>\<open>const randomStringChars = "0123456789abc...XYZ!~-"\<close>\<close>

definition randomStringChars :: string where
  "randomStringChars = ''0123456789abcdefghijklmnopqrstuvwxyzABCDEFGHIJKLMNOPQRSTUVWXYZ!~-''"

section \<open>RandomString\<close>

text \<open>
  \<^verbatim>\<open>rand.Read(bytes)\<close> is \<^verbatim>\<open>io.ReadFull\<close> on the secure random source: it either fills
  the whole buffer or reports an error. The source is the list of bytes it can still
  deliver; too few of them is the error case.
\<close>

definition rand_Read :: "u8 list \<Rightarrow> u8 list \<Rightarrow> error + u8 list" where
  "rand_Read source buf =
     (if length source < length buf then Inl (Error ''unexpected EOF'')
      else Inr (take (length buf) source))"

text \<open>
  The byte the loop body stores at a position that holds \<open>b\<close>:
  \<^verbatim>\<open>randomStringChars[b%byte(len(randomStringChars))]\<close>.
\<close>

definition pick :: "u8 \<Rightarrow> u8" where
  "pick b = byte_of_char (randomStringChars ! unat (b mod of_nat (length randomStringChars)))"

text \<open>
  The loop \<^verbatim>\<open>for i, b := range bytes { bytes[i] = randomStringChars[b%byte(len(randomStringChars))] }\<close>,
  with \<open>i\<close> the loop index and the slice updated in place.
\<close>

function RandomString_loop :: "nat \<Rightarrow> u8 list \<Rightarrow> u8 list" where
  "RandomString_loop i bytes =
     (if i < length bytes
      then RandomString_loop (Suc i)
             (bytes[i := byte_of_char
                (randomStringChars ! unat ((bytes ! i) mod of_nat (length randomStringChars)))])
      else bytes)"
  by pat_completeness auto
termination
  by (relation "measure (\<lambda>(i, bytes). length bytes - i)") auto

declare RandomString_loop.simps [simp del]

text \<open>
  What the Go runtime allows an allocation: \<open>maxAlloc\<close> is the largest size in bytes that
  \<^verbatim>\<open>make\<close> accepts (a constant of the platform, \<open>2^48\<close> on 64-bit Linux), \<open>memory\<close> the
  number of bytes the process can still obtain.
\<close>

record go_runtime =
  maxAlloc :: nat
  memory :: nat

text \<open>
  \<^verbatim>\<open>make([]byte, length)\<close> panics on a negative length and on one above the allocation
  limit, and the runtime ends the process when the memory is not there; a failed read of
  the random source ends the process through \<^verbatim>\<open>logrus.Fatal\<close>.
\<close>

definition RandomString :: "go_runtime \<Rightarrow> u8 list \<Rightarrow> int \<Rightarrow> failure + string" where
  "RandomString rt source len =
     (if len < 0 \<or> int (maxAlloc rt) < len
      then Inl (Panic ''runtime error: makeslice: len out of range'')
      else if int (memory rt) < len then Inl (Throw ''runtime: out of memory'')
      else
        let bytes = replicate (nat len) (0 :: u8) in
        case rand_Read source bytes of
          Inl err \<Rightarrow> Inl (Fatal ''unable to generate a random secret'')
        | Inr bytes \<Rightarrow> Inr (string_of_bytes (RandomString_loop 0 bytes)))"

text \<open>All 256 byte values, for counting how often each character is chosen.\<close>

definition all_bytes :: "u8 list" where
  "all_bytes = map of_nat [0..<256]"

text \<open>The number of byte values for which a one-character \<^verbatim>\<open>RandomString\<close> is \<open>c\<close>.\<close>

definition chosen_by :: "go_runtime \<Rightarrow> char \<Rightarrow> nat" where
  "chosen_by rt c = length (filter (\<lambda>b. RandomString rt [b] 1 = Inr [c]) all_bytes)"

text \<open>A 64-bit Linux process with a gibibyte of memory to spare.\<close>

definition test_runtime :: go_runtime where
  "test_runtime = \<lparr> maxAlloc = 2 ^ 48, memory = 2 ^ 30 \<rparr>"

section \<open>Library values used by the PKI issuer\<close>

text \<open>
  The fields of \<^verbatim>\<open>pkix.Name\<close>, \<^verbatim>\<open>x509.Certificate\<close>, \<^verbatim>\<open>rsa.PublicKey\<close>,
  \<^verbatim>\<open>rsa.PrivateKey\<close> and \<^verbatim>\<open>pem.Block\<close> that this file reads or writes. A field the
  code leaves out of a struct literal has Go's zero value: \<open>False\<close>, the empty string, the
  empty slice. A \<^verbatim>\<open>time.Time\<close> is a count of nanoseconds, a \<^verbatim>\<open>net.IP\<close> a byte slice.
\<close>

record pkix_Name =
  Organization :: "string list"
  CommonName :: string

record certificate =
  Raw :: "u8 list"
  SerialNumber :: int
  Subject :: pkix_Name
  NotBefore :: int
  NotAfter :: int
  KeyUsage :: int
  BasicConstraintsValid :: bool
  IsCA :: bool
  DNSNames :: "string list"
  IPAddresses :: "u8 list list"

record rsa_PublicKey =
  rsa_N :: int
  rsa_E :: int

record rsa_PrivateKey =
  PublicKey :: rsa_PublicKey
  rsa_D :: int
  Primes :: "int list"

record pem_Block =
  Type :: string
  Bytes :: "u8 list"

text \<open>\<^verbatim>\<open>x509.KeyUsage\<close> is a bit set: \<^verbatim>\<open>1 << iota\<close> in the order of the library's list.\<close>

definition KeyUsageDigitalSignature :: int where
  "KeyUsageDigitalSignature = push_bit 0 1"

definition KeyUsageKeyEncipherment :: int where
  "KeyUsageKeyEncipherment = push_bit 2 1"

definition KeyUsageCertSign :: int where
  "KeyUsageCertSign = push_bit 5 1"

text \<open>\<^verbatim>\<open>const rsaBits = 2048\<close>\<close>

definition rsaBits :: nat where
  "rsaBits = 2048"

text \<open>The permission literals \<^verbatim>\<open>0600\<close> and \<^verbatim>\<open>0700\<close> are octal.\<close>

definition perm_0600 :: nat where
  "perm_0600 = 6 * 8 ^ 2 + 0 * 8 + 0"

definition perm_0700 :: nat where
  "perm_0700 = 7 * 8 ^ 2 + 0 * 8 + 0"

text \<open>The group and other permission bits, octal \<^verbatim>\<open>077\<close>.\<close>

definition perm_group_other :: nat where
  "perm_group_other = 7 * 8 + 7"

datatype open_flag = O_WRONLY | O_CREATE | O_TRUNC

section \<open>The environment and the trace of calls\<close>

text \<open>
  Every call that leaves the program is an event of the trace, with its arguments and,
  for the file operations, the answer of the operating system. A file handle is the name
  the file was opened under.
\<close>

datatype event =
    EvCreateDirectory string nat
  | EvCreate string "error option"
  | EvOpenFile string "open_flag list" nat "error option"
  | EvEncode string pem_Block "error option"
  | EvClose string
  | EvCreateCertificate certificate certificate rsa_PublicKey rsa_PrivateKey
  | EvExecCommand "string list" string "string list"
  | EvPrintln string

text \<open>
  The environment answers the calls: the clock and the random source by the number of
  the reading, the file system by the file name, the pure library functions by their
  arguments. Nothing is assumed about the answers.
\<close>

record env =
  env_Now :: "nat \<Rightarrow> int"
  env_rand_Int :: "nat \<Rightarrow> int \<Rightarrow> error + int"
  env_GenerateKey :: "nat \<Rightarrow> nat \<Rightarrow> error + rsa_PrivateKey"
  env_CreateCertificate ::
    "certificate \<Rightarrow> certificate \<Rightarrow> rsa_PublicKey \<Rightarrow> rsa_PrivateKey \<Rightarrow> error + u8 list"
  env_ParseCertificate :: "u8 list \<Rightarrow> error + certificate"
  env_MarshalPKCS1PrivateKey :: "rsa_PrivateKey \<Rightarrow> u8 list"
  env_EncodeToMemory :: "pem_Block \<Rightarrow> u8 list"
  env_ParseIP :: "string \<Rightarrow> u8 list option"
  env_Join :: "string \<Rightarrow> string \<Rightarrow> string"
  env_AssetPath :: "string \<Rightarrow> string"
  env_Create :: "string \<Rightarrow> error option"
  env_OpenFile :: "string \<Rightarrow> error option"
  env_Encode :: "string \<Rightarrow> pem_Block \<Rightarrow> error option"
  env_CreateDirectory :: "string \<Rightarrow> nat \<Rightarrow> string option"
  env_ExecCommand :: "string list \<Rightarrow> string \<Rightarrow> string list \<Rightarrow> string option"

record state =
  clock_reads :: nat
  rand_draws :: nat
  trace :: "event list"

definition emit :: "event \<Rightarrow> state \<Rightarrow> state" where
  "emit e s = s\<lparr>trace := trace s @ [e]\<rparr>"

subsection \<open>Library calls\<close>

definition time_Now :: "env \<Rightarrow> state \<Rightarrow> int \<times> state" where
  "time_Now ev s = (env_Now ev (clock_reads s), s\<lparr>clock_reads := Suc (clock_reads s)\<rparr>)"

definition time_Add :: "int \<Rightarrow> int \<Rightarrow> int" where
  "time_Add t d = t + d"

text \<open>\<^verbatim>\<open>Time.Sub\<close> saturates at the largest and smallest \<^verbatim>\<open>Duration\<close> (a 64-bit integer).\<close>

definition time_Sub :: "int \<Rightarrow> int \<Rightarrow> int" where
  "time_Sub t u =
     (let d = t - u in
      if d > 2 ^ 63 - 1 then 2 ^ 63 - 1 else if d < - (2 ^ 63) then - (2 ^ 63) else d)"

definition rand_Int :: "env \<Rightarrow> int \<Rightarrow> state \<Rightarrow> (error + int) \<times> state" where
  "rand_Int ev limit s = (env_rand_Int ev (rand_draws s) limit, s\<lparr>rand_draws := Suc (rand_draws s)\<rparr>)"

definition rsa_GenerateKey :: "env \<Rightarrow> nat \<Rightarrow> state \<Rightarrow> (error + rsa_PrivateKey) \<times> state" where
  "rsa_GenerateKey ev bits s =
     (env_GenerateKey ev (rand_draws s) bits, s\<lparr>rand_draws := Suc (rand_draws s)\<rparr>)"

definition rsa_Public :: "rsa_PrivateKey \<Rightarrow> rsa_PublicKey" where
  "rsa_Public priv = PublicKey priv"

definition x509_CreateCertificate ::
  "env \<Rightarrow> certificate \<Rightarrow> certificate \<Rightarrow> rsa_PublicKey \<Rightarrow> rsa_PrivateKey \<Rightarrow> state
   \<Rightarrow> (error + u8 list) \<times> state" where
  "x509_CreateCertificate ev template parent pub priv s =
     (env_CreateCertificate ev template parent pub priv,
      emit (EvCreateCertificate template parent pub priv) s)"

definition os_Create :: "env \<Rightarrow> string \<Rightarrow> state \<Rightarrow> (error + string) \<times> state" where
  "os_Create ev name s =
     ((case env_Create ev name of Some err \<Rightarrow> Inl err | None \<Rightarrow> Inr name),
      emit (EvCreate name (env_Create ev name)) s)"

definition os_OpenFile ::
  "env \<Rightarrow> string \<Rightarrow> open_flag list \<Rightarrow> nat \<Rightarrow> state \<Rightarrow> (error + string) \<times> state" where
  "os_OpenFile ev name flag perm s =
     ((case env_OpenFile ev name of Some err \<Rightarrow> Inl err | None \<Rightarrow> Inr name),
      emit (EvOpenFile name flag perm (env_OpenFile ev name)) s)"

definition pem_Encode :: "env \<Rightarrow> string \<Rightarrow> pem_Block \<Rightarrow> state \<Rightarrow> error option \<times> state" where
  "pem_Encode ev out b s = (env_Encode ev out b, emit (EvEncode out b (env_Encode ev out b)) s)"

definition file_Close :: "string \<Rightarrow> state \<Rightarrow> state" where
  "file_Close f s = emit (EvClose f) s"

definition fmt_Println :: "string \<Rightarrow> state \<Rightarrow> state" where
  "fmt_Println a s = emit (EvPrintln a) s"

subsection \<open>Functions of the repository that are defined in other files\<close>

text \<open>
  Modelled from the spec: \<^verbatim>\<open>AssetPath\<close>, whose body is not in this file, is the
  directory-resolution service that supplies the path for storing certificate artifacts.
\<close>

definition AssetPath :: "env \<Rightarrow> string \<Rightarrow> string" where
  "AssetPath ev name = env_AssetPath ev name"

text \<open>
  Modelled from the spec: \<^verbatim>\<open>CreateDirectory\<close>, whose body is not in this file, ensures
  that the directory exists with the given permissions; a failure is fatal to the
  calling process.
\<close>

definition CreateDirectory :: "env \<Rightarrow> string \<Rightarrow> nat \<Rightarrow> state \<Rightarrow> (failure + unit) \<times> state" where
  "CreateDirectory ev path mode s =
     ((case env_CreateDirectory ev path mode of Some m \<Rightarrow> Inl (Fatal m) | None \<Rightarrow> Inr ()),
      emit (EvCreateDirectory path mode) s)"

text \<open>
  Modelled from the spec: \<^verbatim>\<open>ExecCommand\<close>, whose body is not in this file, invokes an
  external client; its failure is propagated as a fatal error.
\<close>

definition ExecCommand ::
  "env \<Rightarrow> string list \<Rightarrow> string \<Rightarrow> string list \<Rightarrow> state \<Rightarrow> (failure + unit) \<times> state" where
  "ExecCommand ev envVariables name args s =
     ((case env_ExecCommand ev envVariables name args of
         Some m \<Rightarrow> Inl (Fatal m) | None \<Rightarrow> Inr ()),
      emit (EvExecCommand envVariables name args) s)"

section \<open>The PKI issuer\<close>

text \<open>
  \<^verbatim>\<open>newCertificate\<close> creates a new template. A failure of \<^verbatim>\<open>rand.Int\<close> ends the process
  through \<^verbatim>\<open>logrus.Fatalf\<close>.
\<close>

definition newCertificate :: "env \<Rightarrow> int \<Rightarrow> state \<Rightarrow> (failure + certificate) \<times> state" where
  "newCertificate ev validFor' s =
     (case time_Now ev s of (notBefore, s1) \<Rightarrow>
        let notAfter = time_Add notBefore validFor';
            serialNumberLimit = push_bit 128 (1 :: int)
        in case rand_Int ev serialNumberLimit s1 of
             (Inl err, s2) \<Rightarrow>
               (Inl (Fatal (''failed to generate serial number: '' @ error_msg err)), s2)
           | (Inr serialNumber, s2) \<Rightarrow>
               (Inr \<lparr> Raw = [],
                      SerialNumber = serialNumber,
                      Subject = \<lparr> Organization = [org], CommonName = [] \<rparr>,
                      NotBefore = notBefore,
                      NotAfter = notAfter,
                      KeyUsage = KeyUsageKeyEncipherment OR KeyUsageDigitalSignature,
                      BasicConstraintsValid = True,
                      IsCA = False,
                      DNSNames = [],
                      IPAddresses = [] \<rparr>, s2))"

text \<open>\<^verbatim>\<open>newPrivateKey\<close> creates a new private key.\<close>

definition newPrivateKey :: "env \<Rightarrow> state \<Rightarrow> (error + rsa_PrivateKey) \<times> state" where
  "newPrivateKey ev s = rsa_GenerateKey ev rsaBits s"

text \<open>
  \<^verbatim>\<open>generateCA\<close> creates a new CA certificate, saves the certificate and returns the
  certificate and the private key. The deferred \<^verbatim>\<open>certOut.Close()\<close> runs on both
  returns that follow \<^verbatim>\<open>os.Create\<close>.
\<close>

definition generateCA ::
  "env \<Rightarrow> string \<Rightarrow> int \<Rightarrow> state
   \<Rightarrow> (failure + (error + certificate \<times> rsa_PrivateKey)) \<times> state" where
  "generateCA ev caFile validFor' s =
     (case newCertificate ev validFor' s of
        (Inl f, s1) \<Rightarrow> (Inl f, s1)
      | (Inr template0, s1) \<Rightarrow>
          let template1 = template0\<lparr>IsCA := True\<rparr>;
              template2 = template1\<lparr>KeyUsage := KeyUsage template1 OR KeyUsageCertSign\<rparr>;
              template = template2\<lparr>Subject :=
                (Subject template2)\<lparr>CommonName := ''Zarf Private Certificate Authority''\<rparr>\<rparr>
          in case newPrivateKey ev s1 of
               (Inl err, s2) \<Rightarrow> (Inr (Inl err), s2)
             | (Inr priv, s2) \<Rightarrow>
                 (case x509_CreateCertificate ev template template (rsa_Public priv) priv s2 of
                    (Inl err, s3) \<Rightarrow> (Inr (Inl err), s3)
                  | (Inr derBytes, s3) \<Rightarrow>
                      (case env_ParseCertificate ev derBytes of
                         Inl err \<Rightarrow> (Inr (Inl err), s3)
                       | Inr ca \<Rightarrow>
                           (case os_Create ev caFile s3 of
                              (Inl err, s4) \<Rightarrow> (Inr (Inl err), s4)
                            | (Inr certOut, s4) \<Rightarrow>
                                (case pem_Encode ev certOut
                                        \<lparr> Type = ''CERTIFICATE'', Bytes = derBytes \<rparr> s4 of
                                   (Some err, s5) \<Rightarrow> (Inr (Inl err), file_Close certOut s5)
                                 | (None, s5) \<Rightarrow>
                                     (Inr (Inr (ca, priv)), file_Close certOut s5))))))"

text \<open>
  \<^verbatim>\<open>savePrivateKey\<close> saves the private key to a PEM file. The result of \<^verbatim>\<open>pem.Encode\<close>
  is dropped and the function returns \<^verbatim>\<open>nil\<close>.
\<close>

definition savePrivateKey :: "env \<Rightarrow> rsa_PrivateKey \<Rightarrow> string \<Rightarrow> state \<Rightarrow> error option \<times> state" where
  "savePrivateKey ev key keyFile s =
     (case os_OpenFile ev keyFile [O_WRONLY, O_CREATE, O_TRUNC] perm_0600 s of
        (Inl err, s1) \<Rightarrow> (Some err, s1)
      | (Inr keyOut, s1) \<Rightarrow>
          let keyBytes = env_MarshalPKCS1PrivateKey ev key
          in case pem_Encode ev keyOut \<lparr> Type = ''RSA PRIVATE KEY'', Bytes = keyBytes \<rparr> s1 of
               (_, s2) \<Rightarrow> (None, file_Close keyOut s2))"

text \<open>
  \<^verbatim>\<open>generateFromTemplate\<close> generates a certificate from the given template, signed by the
  given parent, storing the results in a certificate and key file. The result of
  \<^verbatim>\<open>pem.Encode\<close> is dropped here too.
\<close>

definition generateFromTemplate ::
  "env \<Rightarrow> string \<Rightarrow> string \<Rightarrow> certificate \<Rightarrow> certificate \<Rightarrow> rsa_PrivateKey \<Rightarrow> rsa_PrivateKey
   \<Rightarrow> state \<Rightarrow> error option \<times> state" where
  "generateFromTemplate ev certFile keyFile template parent key parentKey s =
     (case x509_CreateCertificate ev template parent (rsa_Public key) parentKey s of
        (Inl err, s1) \<Rightarrow> (Some err, s1)
      | (Inr derBytes, s1) \<Rightarrow>
          (case os_Create ev certFile s1 of
             (Inl err, s2) \<Rightarrow> (Some err, s2)
           | (Inr certOut, s2) \<Rightarrow>
               (case pem_Encode ev certOut \<lparr> Type = ''CERTIFICATE'', Bytes = derBytes \<rparr> s2 of
                  (_, s3) \<Rightarrow> savePrivateKey ev key keyFile (file_Close certOut s3))))"

text \<open>
  \<^verbatim>\<open>generateCert\<close> generates a new certificate for the given host using the provided
  certificate authority.
\<close>

definition generateCert ::
  "env \<Rightarrow> string \<Rightarrow> string \<Rightarrow> string \<Rightarrow> certificate \<Rightarrow> rsa_PrivateKey \<Rightarrow> int \<Rightarrow> state
   \<Rightarrow> (failure + error option) \<times> state" where
  "generateCert ev host certFile keyFile ca caKey validFor' s =
     (case newCertificate ev validFor' s of
        (Inl f, s1) \<Rightarrow> (Inl f, s1)
      | (Inr template0, s1) \<Rightarrow>
          let template =
                (case env_ParseIP ev host of
                   Some ip \<Rightarrow> template0\<lparr>IPAddresses := IPAddresses template0 @ [ip]\<rparr>
                 | None \<Rightarrow>
                     let template1 = template0\<lparr>DNSNames :=
                           DNSNames template0 @ [host, ''localhost'', ''*.localhost'']\<rparr>
                     in if CommonName (Subject template1) = []
                        then template1\<lparr>Subject := (Subject template1)\<lparr>CommonName := host\<rparr>\<rparr>
                        else template1)
          in case newPrivateKey ev s1 of
               (Inl err, s2) \<Rightarrow> (Inr (Some err), s2)
             | (Inr priv, s2) \<Rightarrow>
                 (case generateFromTemplate ev certFile keyFile template ca priv caKey s2 of
                    (r, s3) \<Rightarrow> (Inr r, s3)))"

text \<open>
  \<^verbatim>\<open>GeneratePKI\<close> creates a CA and a signed server keypair. An error of \<^verbatim>\<open>generateCA\<close> or
  \<^verbatim>\<open>generateCert\<close> ends the process through \<^verbatim>\<open>logrus.Fatal\<close>.
\<close>

definition GeneratePKI :: "env \<Rightarrow> string \<Rightarrow> state \<Rightarrow> (failure + unit) \<times> state" where
  "GeneratePKI ev host s =
     (let directory = AssetPath ev ''certs'' in
      case CreateDirectory ev directory perm_0700 s of
        (Inl f, s0) \<Rightarrow> (Inl f, s0)
      | (Inr _, s0) \<Rightarrow>
          let caFile = env_Join ev directory ''zarf-ca.pem'' in
          case generateCA ev caFile validFor s0 of
            (Inl f, s1) \<Rightarrow> (Inl f, s1)
          | (Inr (Inl err), s1) \<Rightarrow> (Inl (Fatal (error_msg err)), s1)
          | (Inr (Inr (ca, caKey)), s1) \<Rightarrow>
              let hostCert = env_Join ev directory ''zarf-server.crt'';
                  hostKey = env_Join ev directory ''zarf-server.key''
              in case generateCert ev host hostCert hostKey ca caKey validFor s1 of
                   (Inl f, s2) \<Rightarrow> (Inl f, s2)
                 | (Inr (Some err), s2) \<Rightarrow> (Inl (Fatal (error_msg err)), s2)
                 | (Inr None, s2) \<Rightarrow>
                     let publicKeyBlock = \<lparr> Type = ''CERTIFICATE'', Bytes = Raw ca \<rparr>;
                         publicKeyPem = string_of_bytes (env_EncodeToMemory ev publicKeyBlock)
                     in case ExecCommand ev [] ''/usr/local/bin/kubectl''
                               [''-n'', ''kube-system'', ''delete'', ''secret'', ''tls-pem'',
                                ''--ignore-not-found''] s2 of
                          (Inl f, s3) \<Rightarrow> (Inl f, s3)
                        | (Inr _, s3) \<Rightarrow>
                            (case ExecCommand ev [] ''/usr/local/bin/kubectl''
                                    [''-n'', ''kube-system'', ''create'', ''secret'', ''tls'',
                                     ''tls-pem'',
                                     ''--cert='' @ directory @ ''/zarf-server.crt'',
                                     ''--key='' @ directory @ ''/zarf-server.key''] s3 of
                               (Inl f, s4) \<Rightarrow> (Inl f, s4)
                             | (Inr _, s4) \<Rightarrow>
                                 (Inr (),
                                  fmt_Println publicKeyPem
                                    (fmt_Println
                                       (''Ephemeral CA below and saved to '' @ caFile @ [CHR 0x0A])
                                       s4))))"

section \<open>Observations on a trace\<close>

text \<open>The events a call adds to the trace: those of the state after it, less those before.\<close>

definition emitted :: "state \<Rightarrow> state \<Rightarrow> event list" where
  "emitted s s' = drop (length (trace s)) (trace s')"

text \<open>The templates handed to \<^verbatim>\<open>x509.CreateCertificate\<close>, in order.\<close>

fun signed_templates :: "event list \<Rightarrow> certificate list" where
  "signed_templates [] = []"
| "signed_templates (EvCreateCertificate template parent pub priv # es) =
     template # signed_templates es"
| "signed_templates (e # es) = signed_templates es"

text \<open>The names of the files opened for writing, in order.\<close>

fun opened_files :: "event list \<Rightarrow> string list" where
  "opened_files [] = []"
| "opened_files (EvCreate name r # es) = name # opened_files es"
| "opened_files (EvOpenFile name flag perm r # es) = name # opened_files es"
| "opened_files (e # es) = opened_files es"

text \<open>The blocks passed to \<^verbatim>\<open>pem.Encode\<close> with their files, in order.\<close>

fun encoded_blocks :: "event list \<Rightarrow> (string \<times> pem_Block) list" where
  "encoded_blocks [] = []"
| "encoded_blocks (EvEncode name b r # es) = (name, b) # encoded_blocks es"
| "encoded_blocks (e # es) = encoded_blocks es"

text \<open>The calls of \<^verbatim>\<open>os.OpenFile\<close>: name, flags and permission, in order.\<close>

fun openfile_calls :: "event list \<Rightarrow> (string \<times> open_flag list \<times> nat) list" where
  "openfile_calls [] = []"
| "openfile_calls (EvOpenFile name flag perm r # es) = (name, flag, perm) # openfile_calls es"
| "openfile_calls (e # es) = openfile_calls es"

text \<open>The results of the calls of \<^verbatim>\<open>pem.Encode\<close>, in order.\<close>

fun encode_results :: "event list \<Rightarrow> error option list" where
  "encode_results [] = []"
| "encode_results (EvEncode name b r # es) = r # encode_results es"
| "encode_results (e # es) = encode_results es"

text \<open>A block has been written to a file when its \<^verbatim>\<open>pem.Encode\<close> returned no error.\<close>

definition written :: "event list \<Rightarrow> string \<Rightarrow> pem_Block \<Rightarrow> bool" where
  "written es name b = (EvEncode name b None \<in> set es)"

section \<open>The file system\<close>

text \<open>
  A file has permission bits and holds the PEM blocks written to it. The file system
  after a run is what the operating system makes of the calls in the trace, given the
  process's umask: \<^verbatim>\<open>os.Create\<close> is \<^verbatim>\<open>os.OpenFile\<close> with \<^verbatim>\<open>O_RDWR|O_CREATE|O_TRUNC\<close> and
  permission \<^verbatim>\<open>0666\<close>; a file that does not exist is created with the permission argument
  less the umask bits; a file that exists keeps its permission bits and is emptied by
  \<^verbatim>\<open>O_TRUNC\<close>; a \<^verbatim>\<open>pem.Encode\<close> that returns no error appends its block. A call that
  returned an error changes nothing.
\<close>

record os_file =
  file_mode :: nat
  file_blocks :: "pem_Block list"

type_synonym file_system = "string \<Rightarrow> os_file option"

definition perm_0666 :: nat where
  "perm_0666 = 6 * 8 ^ 2 + 6 * 8 + 6"

definition mask_perm :: "nat \<Rightarrow> nat \<Rightarrow> nat" where
  "mask_perm umask perm = nat (int perm AND NOT (int umask))"

definition open_file :: "nat \<Rightarrow> string \<Rightarrow> open_flag list \<Rightarrow> nat \<Rightarrow> file_system \<Rightarrow> file_system" where
  "open_file umask name flag perm fs =
     (case fs name of
        None \<Rightarrow>
          if O_CREATE \<in> set flag
          then fs(name \<mapsto> \<lparr> file_mode = mask_perm umask perm, file_blocks = [] \<rparr>)
          else fs
      | Some f \<Rightarrow>
          if O_TRUNC \<in> set flag then fs(name \<mapsto> f\<lparr> file_blocks := [] \<rparr>) else fs)"

fun fs_step :: "nat \<Rightarrow> event \<Rightarrow> file_system \<Rightarrow> file_system" where
  "fs_step umask (EvCreate name None) fs = open_file umask name [O_CREATE, O_TRUNC] perm_0666 fs"
| "fs_step umask (EvOpenFile name flag perm None) fs = open_file umask name flag perm fs"
| "fs_step umask (EvEncode name b None) fs =
     (case fs name of
        None \<Rightarrow> fs
      | Some f \<Rightarrow> fs(name \<mapsto> f\<lparr> file_blocks := file_blocks f @ [b] \<rparr>))"
| "fs_step umask e fs = fs"

fun files_after :: "nat \<Rightarrow> file_system \<Rightarrow> event list \<Rightarrow> file_system" where
  "files_after umask fs [] = fs"
| "files_after umask fs (e # es) = files_after umask (fs_step umask e fs) es"

section \<open>What the library promises of a certificate\<close>

text \<open>
  Modelled from the documentation of the Go library, whose code is not in this
  repository: \<^verbatim>\<open>x509.CreateCertificate\<close> writes the key usage of the template and, when
  \<^verbatim>\<open>BasicConstraintsValid\<close> is set, its \<^verbatim>\<open>IsCA\<close> flag into the certificate, and
  \<^verbatim>\<open>x509.ParseCertificate\<close> reads them back (the nine key-usage bits the library knows).
\<close>

definition x509_round_trip :: "env \<Rightarrow> bool" where
  "x509_round_trip ev =
     (\<forall>template parent pub priv der cert.
        env_CreateCertificate ev template parent pub priv = Inr der \<longrightarrow>
        env_ParseCertificate ev der = Inr cert \<longrightarrow>
        BasicConstraintsValid cert = BasicConstraintsValid template \<and>
        IsCA cert = (BasicConstraintsValid template \<and> IsCA template) \<and>
        KeyUsage cert = take_bit 9 (KeyUsage template))"

section \<open>The events of each call, given the answers of the environment\<close>

text \<open>
  The trace lemmas below state, for each function, the events it appends. These
  definitions name those event lists and the templates built on the way.
\<close>

definition key_events :: "env \<Rightarrow> rsa_PrivateKey \<Rightarrow> string \<Rightarrow> event list" where
  "key_events ev key keyFile =
     EvOpenFile keyFile [O_WRONLY, O_CREATE, O_TRUNC] perm_0600 (env_OpenFile ev keyFile) #
     (case env_OpenFile ev keyFile of
        Some err \<Rightarrow> []
      | None \<Rightarrow>
          [EvEncode keyFile \<lparr> Type = ''RSA PRIVATE KEY'', Bytes = env_MarshalPKCS1PrivateKey ev key \<rparr>
             (env_Encode ev keyFile
                \<lparr> Type = ''RSA PRIVATE KEY'', Bytes = env_MarshalPKCS1PrivateKey ev key \<rparr>),
           EvClose keyFile])"

definition leaf_events ::
  "env \<Rightarrow> string \<Rightarrow> string \<Rightarrow> certificate \<Rightarrow> certificate \<Rightarrow> rsa_PrivateKey \<Rightarrow> rsa_PrivateKey
   \<Rightarrow> event list" where
  "leaf_events ev certFile keyFile template parent key parentKey =
     EvCreateCertificate template parent (rsa_Public key) parentKey #
     (case env_CreateCertificate ev template parent (rsa_Public key) parentKey of
        Inl err \<Rightarrow> []
      | Inr derBytes \<Rightarrow>
          EvCreate certFile (env_Create ev certFile) #
          (case env_Create ev certFile of
             Some err \<Rightarrow> []
           | None \<Rightarrow>
               [EvEncode certFile \<lparr> Type = ''CERTIFICATE'', Bytes = derBytes \<rparr>
                  (env_Encode ev certFile \<lparr> Type = ''CERTIFICATE'', Bytes = derBytes \<rparr>),
                EvClose certFile] @ key_events ev key keyFile))"

definition host_template :: "env \<Rightarrow> string \<Rightarrow> certificate \<Rightarrow> certificate" where
  "host_template ev host template0 =
     (case env_ParseIP ev host of
        Some ip \<Rightarrow> template0\<lparr>IPAddresses := IPAddresses template0 @ [ip]\<rparr>
      | None \<Rightarrow>
          let template1 = template0\<lparr>DNSNames :=
                DNSNames template0 @ [host, ''localhost'', ''*.localhost'']\<rparr>
          in if CommonName (Subject template1) = []
             then template1\<lparr>Subject := (Subject template1)\<lparr>CommonName := host\<rparr>\<rparr>
             else template1)"

definition ca_template :: "certificate \<Rightarrow> certificate" where
  "ca_template template0 =
     template0\<lparr> IsCA := True,
                 KeyUsage := KeyUsage template0 OR KeyUsageCertSign,
                 Subject := (Subject template0)\<lparr>CommonName := ''Zarf Private Certificate Authority''\<rparr> \<rparr>"

definition ca_events :: "env \<Rightarrow> string \<Rightarrow> certificate \<Rightarrow> rsa_PrivateKey \<Rightarrow> event list" where
  "ca_events ev caFile template priv =
     EvCreateCertificate template template (rsa_Public priv) priv #
     (case env_CreateCertificate ev template template (rsa_Public priv) priv of
        Inl err \<Rightarrow> []
      | Inr derBytes \<Rightarrow>
          (case env_ParseCertificate ev derBytes of
             Inl err \<Rightarrow> []
           | Inr ca \<Rightarrow>
               EvCreate caFile (env_Create ev caFile) #
               (case env_Create ev caFile of
                  Some err \<Rightarrow> []
                | None \<Rightarrow>
                    [EvEncode caFile \<lparr> Type = ''CERTIFICATE'', Bytes = derBytes \<rparr>
                       (env_Encode ev caFile \<lparr> Type = ''CERTIFICATE'', Bytes = derBytes \<rparr>),
                     EvClose caFile])))"

definition ca_result ::
  "env \<Rightarrow> string \<Rightarrow> certificate \<Rightarrow> rsa_PrivateKey \<Rightarrow> error + certificate \<times> rsa_PrivateKey" where
  "ca_result ev caFile template priv =
     (case env_CreateCertificate ev template template (rsa_Public priv) priv of
        Inl err \<Rightarrow> Inl err
      | Inr derBytes \<Rightarrow>
          (case env_ParseCertificate ev derBytes of
             Inl err \<Rightarrow> Inl err
           | Inr ca \<Rightarrow>
               (case env_Create ev caFile of
                  Some err \<Rightarrow> Inl err
                | None \<Rightarrow>
                    (case env_Encode ev caFile \<lparr> Type = ''CERTIFICATE'', Bytes = derBytes \<rparr> of
                       Some err \<Rightarrow> Inl err
                     | None \<Rightarrow> Inr (ca, priv)))))"

definition leaf_result ::
  "env \<Rightarrow> string \<Rightarrow> string \<Rightarrow> certificate \<Rightarrow> certificate \<Rightarrow> rsa_PrivateKey \<Rightarrow> rsa_PrivateKey
   \<Rightarrow> error option" where
  "leaf_result ev certFile keyFile template parent key parentKey =
     (case env_CreateCertificate ev template parent (rsa_Public key) parentKey of
        Inl err \<Rightarrow> Some err
      | Inr derBytes \<Rightarrow>
          (case env_Create ev certFile of
             Some err \<Rightarrow> Some err
           | None \<Rightarrow> env_OpenFile ev keyFile))"

definition pki_tail :: "env \<Rightarrow> string \<Rightarrow> string \<Rightarrow> certificate \<Rightarrow> event list" where
  "pki_tail ev directory caFile ca =
     EvExecCommand [] ''/usr/local/bin/kubectl''
       [''-n'', ''kube-system'', ''delete'', ''secret'', ''tls-pem'', ''--ignore-not-found''] #
     (case env_ExecCommand ev [] ''/usr/local/bin/kubectl''
             [''-n'', ''kube-system'', ''delete'', ''secret'', ''tls-pem'', ''--ignore-not-found''] of
        Some m \<Rightarrow> []
      | None \<Rightarrow>
          EvExecCommand [] ''/usr/local/bin/kubectl''
            [''-n'', ''kube-system'', ''create'', ''secret'', ''tls'', ''tls-pem'',
             ''--cert='' @ directory @ ''/zarf-server.crt'',
             ''--key='' @ directory @ ''/zarf-server.key''] #
          (case env_ExecCommand ev [] ''/usr/local/bin/kubectl''
                  [''-n'', ''kube-system'', ''create'', ''secret'', ''tls'', ''tls-pem'',
                   ''--cert='' @ directory @ ''/zarf-server.crt'',
                   ''--key='' @ directory @ ''/zarf-server.key''] of
             Some m \<Rightarrow> []
           | None \<Rightarrow>
               [EvPrintln (''Ephemeral CA below and saved to '' @ caFile @ [CHR 0x0A]),
                EvPrintln (string_of_bytes
                  (env_EncodeToMemory ev \<lparr> Type = ''CERTIFICATE'', Bytes = Raw ca \<rparr>))]))"

section \<open>A concrete environment\<close>

text \<open>
  An environment in which every call succeeds, for evaluating the functions: the clock
  ticks once per reading, the random source counts its draws, \<^verbatim>\<open>filepath.Join\<close> puts a
  separator between its arguments, and \<^verbatim>\<open>net.ParseIP\<close> knows the loopback address.
\<close>

definition test_key :: "nat \<Rightarrow> rsa_PrivateKey" where
  "test_key n =
     \<lparr> PublicKey = \<lparr> rsa_N = 3233 + int n, rsa_E = 17 \<rparr>, rsa_D = 2753, Primes = [61, 53] \<rparr>"

definition test_ca :: certificate where
  "test_ca =
     \<lparr> Raw = [48, 130], SerialNumber = 1,
       Subject = \<lparr> Organization = [org], CommonName = ''Zarf Private Certificate Authority'' \<rparr>,
       NotBefore = 0, NotAfter = validFor,
       KeyUsage = 37, BasicConstraintsValid = True, IsCA = True,
       DNSNames = [], IPAddresses = [] \<rparr>"

definition test_env :: env where
  "test_env =
     \<lparr> env_Now = (\<lambda>n. 1700000000 + int n),
       env_rand_Int = (\<lambda>n limit. Inr (int n)),
       env_GenerateKey = (\<lambda>n bits. Inr (test_key n)),
       env_CreateCertificate = (\<lambda>template parent pub priv. Inr [48, 130, of_int (SerialNumber template)]),
       env_ParseCertificate = (\<lambda>der. Inr (test_ca\<lparr>Raw := der\<rparr>)),
       env_MarshalPKCS1PrivateKey = (\<lambda>key. [48, of_int (rsa_D key)]),
       env_EncodeToMemory = (\<lambda>b. Bytes b),
       env_ParseIP = (\<lambda>host. if host = ''127.0.0.1'' then Some [127, 0, 0, 1] else None),
       env_Join = (\<lambda>dir name. dir @ ''/'' @ name),
       env_AssetPath = (\<lambda>name. ''/opt/zarf/'' @ name),
       env_Create = (\<lambda>name. None),
       env_OpenFile = (\<lambda>name. None),
       env_Encode = (\<lambda>name b. None),
       env_CreateDirectory = (\<lambda>path mode. None),
       env_ExecCommand = (\<lambda>envVariables name args. None) \<rparr>"

text \<open>The same environment on a full disk: every \<^verbatim>\<open>pem.Encode\<close> to a file fails.\<close>

definition full_disk_env :: env where
  "full_disk_env = test_env\<lparr> env_Encode := (\<lambda>name b. Some (Error ''no space left on device'')) \<rparr>"

definition init_state :: state where
  "init_state = \<lparr> clock_reads = 0, rand_draws = 0, trace = [] \<rparr>"

text \<open>
  The same environment with a certificate encoding that keeps the flags: a marker byte,
  the two basic-constraints flags and the nine key-usage bits, one byte each.
\<close>

definition x509_env :: env where
  "x509_env = test_env
     \<lparr> env_CreateCertificate := (\<lambda>template parent pub priv.
          Inr (48 # of_bool (BasicConstraintsValid template)
                  # of_bool (BasicConstraintsValid template \<and> IsCA template)
                  # map (\<lambda>i. of_bool (bit (KeyUsage template) i)) [0..<9])),
       env_ParseCertificate := (\<lambda>der.
          if length der = 12 \<and> hd der = 48
          then Inr (test_ca\<lparr> Raw := der,
                             BasicConstraintsValid := (der ! 1 \<noteq> 0),
                             IsCA := (der ! 2 \<noteq> 0),
                             KeyUsage := horner_sum of_bool 2 (map (\<lambda>x. x \<noteq> 0) (drop 3 der)) \<rparr>)
          else Inl (Error ''x509: malformed certificate'')) \<rparr>"

text \<open>The permission literals \<^verbatim>\<open>0644\<close> and \<^verbatim>\<open>022\<close>, the usual mode of a file and umask.\<close>

definition perm_0644 :: nat where
  "perm_0644 = 6 * 8 ^ 2 + 4 * 8 + 4"

definition umask_022 :: nat where
  "umask_022 = 2 * 8 + 2"

text \<open>A file system without files, and one where a key file of mode \<^verbatim>\<open>0644\<close> exists.\<close>

definition no_files :: file_system where
  "no_files = (\<lambda>name. None)"

definition old_key_file :: file_system where
  "old_key_file = no_files(''server.key'' \<mapsto> \<lparr> file_mode = perm_0644, file_blocks = [] \<rparr>)"

section \<open>Trace lemmas\<close>

lemma newCertificate_Inr:
  assumes "newCertificate ev v s = (Inr t, s1)"
  shows "NotBefore t = env_Now ev (clock_reads s)"
    and "NotAfter t = env_Now ev (clock_reads s) + v"
    and "KeyUsage t = KeyUsageKeyEncipherment OR KeyUsageDigitalSignature"
    and "IsCA t = False" and "DNSNames t = []" and "IPAddresses t = []"
    and "Subject t = \<lparr> Organization = [org], CommonName = [] \<rparr>"
    and "BasicConstraintsValid t = True"
  using assms
  by (auto simp: newCertificate_def time_Now_def time_Add_def rand_Int_def split: sum.splits)

lemma newCertificate_trace:
  assumes "newCertificate ev v s = (r, s1)"
  shows "trace s1 = trace s"
  using assms
  by (auto simp: newCertificate_def time_Now_def time_Add_def rand_Int_def split: sum.splits)

lemma newPrivateKey_trace:
  assumes "newPrivateKey ev s = (r, s1)"
  shows "trace s1 = trace s"
  using assms by (auto simp: newPrivateKey_def rsa_GenerateKey_def)


lemma emitted_append: "trace s' = trace s @ es \<Longrightarrow> emitted s s' = es"
  by (simp add: emitted_def)

lemma savePrivateKey_trace:
  assumes "savePrivateKey ev key keyFile s = (r, s')"
  shows "trace s' = trace s @ key_events ev key keyFile \<and> r = env_OpenFile ev keyFile"
  using assms
  by (auto simp: savePrivateKey_def os_OpenFile_def pem_Encode_def file_Close_def emit_def
      key_events_def Let_def split: option.splits)

lemma generateFromTemplate_trace:
  assumes "generateFromTemplate ev certFile keyFile template parent key parentKey s = (r, s')"
  shows "trace s' = trace s @ leaf_events ev certFile keyFile template parent key parentKey
    \<and> r = (case env_CreateCertificate ev template parent (rsa_Public key) parentKey of
                Inl err \<Rightarrow> Some err
              | Inr derBytes \<Rightarrow>
                  (case env_Create ev certFile of
                     Some err \<Rightarrow> Some err
                   | None \<Rightarrow> env_OpenFile ev keyFile))"
  using assms
  by (auto simp: generateFromTemplate_def x509_CreateCertificate_def os_Create_def
      pem_Encode_def file_Close_def emit_def leaf_events_def
      dest!: savePrivateKey_trace split: sum.splits option.splits)

lemma generateCert_trace:
  assumes "generateCert ev host certFile keyFile ca caKey v s = (r, s')"
  shows "(\<exists>f s1. newCertificate ev v s = (Inl f, s1) \<and> r = Inl f \<and> trace s' = trace s) \<or>
         (\<exists>t0 s1 err s2. newCertificate ev v s = (Inr t0, s1) \<and>
             newPrivateKey ev s1 = (Inl err, s2) \<and> r = Inr (Some err) \<and> trace s' = trace s) \<or>
         (\<exists>t0 s1 priv s2 r'. newCertificate ev v s = (Inr t0, s1) \<and>
             newPrivateKey ev s1 = (Inr priv, s2) \<and>
             generateFromTemplate ev certFile keyFile (host_template ev host t0) ca priv caKey s2
               = (r', s') \<and>
             r = Inr r' \<and>
             trace s' = trace s @
               leaf_events ev certFile keyFile (host_template ev host t0) ca priv caKey)"
proof (cases "newCertificate ev v s")
  case (Pair a s1)
  note nc = this
  show ?thesis
  proof (cases a)
    case (Inl f)
    with nc assms show ?thesis
      by (auto simp: generateCert_def dest: newCertificate_trace)
  next
    case (Inr t0)
    note t0 = this
    have tr1: "trace s1 = trace s" using nc by (rule newCertificate_trace)
    show ?thesis
    proof (cases "newPrivateKey ev s1")
      case (Pair b s2)
      note pk = this
      have tr2: "trace s2 = trace s" using newPrivateKey_trace[OF pk] tr1 by simp
      show ?thesis
      proof (cases b)
        case (Inl err)
        with nc t0 pk assms tr2 show ?thesis
          by (auto simp: generateCert_def Let_def host_template_def)
      next
        case (Inr priv)
        obtain r' s3 where
          g: "generateFromTemplate ev certFile keyFile (host_template ev host t0) ca priv caKey s2
                = (r', s3)"
          by (cases "generateFromTemplate ev certFile keyFile (host_template ev host t0) ca priv caKey s2")
        have "r = Inr r'" "s' = s3"
          using nc t0 pk Inr assms g
          by (auto simp: generateCert_def Let_def host_template_def)
        with generateFromTemplate_trace[OF g] tr2 nc t0 pk Inr g show ?thesis
          by auto
      qed
    qed
  qed
qed

lemma signed_templates_append [simp]:
  "signed_templates (xs @ ys) = signed_templates xs @ signed_templates ys"
  by (induction xs rule: signed_templates.induct) auto

lemma signed_templates_key_events [simp]: "signed_templates (key_events ev key keyFile) = []"
  by (simp add: key_events_def split: option.splits)

lemma signed_templates_leaf_events [simp]:
  "signed_templates (leaf_events ev certFile keyFile template parent key parentKey) = [template]"
  by (simp add: leaf_events_def split: sum.splits option.splits)


lemma generateCA_trace:
  assumes "generateCA ev caFile v s = (r, s')"
  shows "(\<exists>f s1. newCertificate ev v s = (Inl f, s1) \<and> r = Inl f \<and> trace s' = trace s) \<or>
         (\<exists>t0 s1 err s2. newCertificate ev v s = (Inr t0, s1) \<and>
             newPrivateKey ev s1 = (Inl err, s2) \<and> r = Inr (Inl err) \<and> trace s' = trace s) \<or>
         (\<exists>t0 s1 priv s2. newCertificate ev v s = (Inr t0, s1) \<and>
             newPrivateKey ev s1 = (Inr priv, s2) \<and>
             r = Inr (ca_result ev caFile (ca_template t0) priv) \<and>
             trace s' = trace s @ ca_events ev caFile (ca_template t0) priv)"
proof (cases "newCertificate ev v s")
  case (Pair a s1)
  note nc = this
  show ?thesis
  proof (cases a)
    case (Inl f)
    with nc assms show ?thesis
      by (auto simp: generateCA_def dest: newCertificate_trace)
  next
    case (Inr t0)
    note t0 = this
    have tr1: "trace s1 = trace s" using nc by (rule newCertificate_trace)
    show ?thesis
    proof (cases "newPrivateKey ev s1")
      case (Pair b s2)
      note pk = this
      have tr2: "trace s2 = trace s" using newPrivateKey_trace[OF pk] tr1 by simp
      show ?thesis
      proof (cases b)
        case (Inl err)
        with nc t0 pk assms tr2 show ?thesis
          by (auto simp: generateCA_def Let_def)
      next
        case (Inr priv)
        have tmpl: "t0\<lparr>IsCA := True, KeyUsage := KeyUsage t0 OR KeyUsageCertSign,
                   Subject := (Subject t0)\<lparr>CommonName := ''Zarf Private Certificate Authority''\<rparr>\<rparr>
                = ca_template t0"
          by (simp add: ca_template_def)
        have "r = Inr (ca_result ev caFile (ca_template t0) priv) \<and>
              trace s' = trace s2 @ ca_events ev caFile (ca_template t0) priv"
          using nc t0 pk Inr assms
          by (auto simp: generateCA_def Let_def tmpl ca_result_def ca_events_def
              x509_CreateCertificate_def os_Create_def pem_Encode_def file_Close_def emit_def
              split: sum.splits option.splits)
        with tr2 nc t0 pk Inr show ?thesis by auto
      qed
    qed
  qed
qed

lemma signed_templates_ca_events [simp]:
  "signed_templates (ca_events ev caFile template priv) = [template]"
  by (simp add: ca_events_def split: sum.splits option.splits)


lemma generateCert_templates:
  assumes "generateCert ev host certFile keyFile ca caKey v s = (r, s')"
  shows "signed_templates (emitted s s') = [] \<and> r \<noteq> Inr None \<or>
         (\<exists>t0 s1. newCertificate ev v s = (Inr t0, s1) \<and>
            signed_templates (emitted s s') = [host_template ev host t0])"
  using generateCert_trace[OF assms]
  by (elim disjE exE conjE) (simp_all add: emitted_def)

lemma host_template_dns:
  assumes "newCertificate ev v s = (Inr t0, s1)" and "env_ParseIP ev host = None"
  shows "DNSNames (host_template ev host t0) = [host, ''localhost'', ''*.localhost'']"
    and "IPAddresses (host_template ev host t0) = []"
    and "CommonName (Subject (host_template ev host t0)) = host"
  using newCertificate_Inr[OF assms(1)] assms(2)
  by (simp_all add: host_template_def Let_def)

lemma host_template_ip:
  assumes "newCertificate ev v s = (Inr t0, s1)" and "env_ParseIP ev host = Some ip"
  shows "DNSNames (host_template ev host t0) = []"
    and "IPAddresses (host_template ev host t0) = [ip]"
    and "Subject (host_template ev host t0) = \<lparr> Organization = [org], CommonName = [] \<rparr>"
  using newCertificate_Inr[OF assms(1)] assms(2)
  by (simp_all add: host_template_def Let_def)

section \<open>Evaluating the functions in the concrete environment\<close>

lemmas run_defs = generateCert_def newCertificate_def time_Now_def time_Add_def rand_Int_def
      newPrivateKey_def rsa_GenerateKey_def generateFromTemplate_def x509_CreateCertificate_def
      os_Create_def pem_Encode_def file_Close_def savePrivateKey_def os_OpenFile_def emit_def
      generateCA_def GeneratePKI_def CreateDirectory_def ExecCommand_def AssetPath_def
      fmt_Println_def test_env_def full_disk_env_def init_state_def Let_def

lemma test_generateCert_dns:
  "fst (generateCert test_env ''example.org'' ''server.crt'' ''server.key'' test_ca (test_key 0)
         validFor init_state) = Inr None"
  by (simp add: run_defs)

section \<open>The leaf template of a DNS host\<close>

text \<open>
  C5. For every host that \<^verbatim>\<open>net.ParseIP\<close> does not accept, every template that
  \<^verbatim>\<open>generateCert\<close> hands to \<^verbatim>\<open>x509.CreateCertificate\<close> has the DNS names
  \<open>[host, localhost, *.localhost]\<close>, no IP address, and the host as its common name
  (\<^verbatim>\<open>newCertificate\<close> never sets a common name, so the default always applies). A run
  that returns \<^verbatim>\<open>nil\<close> has signed exactly one such template.
\<close>

theorem generateCert_dns_san:
  assumes "env_ParseIP ev host = None"
    and "generateCert ev host certFile keyFile ca caKey validFor' s = (r, s')"
  shows "(\<forall>t \<in> set (signed_templates (emitted s s')).
            DNSNames t = [host, ''localhost'', ''*.localhost''] \<and>
            IPAddresses t = [] \<and>
            CommonName (Subject t) = host) \<and>
         (r = Inr None \<longrightarrow> length (signed_templates (emitted s s')) = 1)"
  using generateCert_templates[OF assms(2)] host_template_dns[OF _ assms(1)]
  by auto


theorem generateCert_dns_san_witness:
  "env_ParseIP test_env ''example.org'' = None \<and>
   fst (generateCert test_env ''example.org'' ''server.crt'' ''server.key'' test_ca (test_key 0)
          validFor init_state) = Inr None \<and>
   map DNSNames (signed_templates (emitted init_state
     (snd (generateCert test_env ''example.org'' ''server.crt'' ''server.key'' test_ca (test_key 0)
             validFor init_state))))
     = [[''example.org'', ''localhost'', ''*.localhost'']]"
proof -
  let ?run = "generateCert test_env ''example.org'' ''server.crt'' ''server.key'' test_ca
                (test_key 0) validFor init_state"
  let ?ts = "signed_templates (emitted init_state (snd ?run))"
  have h1: "env_ParseIP test_env ''example.org'' = None"
    by (simp add: test_env_def)
  have h2: "?run = (fst ?run, snd ?run)" by simp
  note fact = generateCert_dns_san[OF h1 h2]
  have len: "length ?ts = 1" using fact test_generateCert_dns by blast
  then obtain t where ts: "?ts = [t]" by (cases ?ts) auto
  then have "DNSNames t = [''example.org'', ''localhost'', ''*.localhost'']"
    using fact by simp
  with ts h1 test_generateCert_dns show ?thesis by simp
qed

section \<open>Templates of the CA and of the leaf\<close>

lemma KeyUsage_values:
  "KeyUsageDigitalSignature = 1" "KeyUsageKeyEncipherment = 4" "KeyUsageCertSign = 32"
  by (simp_all add: KeyUsageKeyEncipherment_def KeyUsageDigitalSignature_def KeyUsageCertSign_def)

lemma KeyUsage_bits:
  "(4::int) OR 1 = 5" "(1::int) OR 4 = 5" "(5::int) OR 32 = 37" "(1::int) OR 4 OR 32 = 37"
  "(37::int) AND 32 = 32" "(5::int) AND 32 = 0"
  by simp_all

lemma generateCA_templates:
  assumes "generateCA ev caFile v s = (r, s')"
  shows "signed_templates (emitted s s') = [] \<and> (\<forall>x. r \<noteq> Inr (Inr x)) \<or>
         (\<exists>t0 s1 priv s2. newCertificate ev v s = (Inr t0, s1) \<and>
            newPrivateKey ev s1 = (Inr priv, s2) \<and>
            r = Inr (ca_result ev caFile (ca_template t0) priv) \<and>
            signed_templates (emitted s s') = [ca_template t0])"
  using generateCA_trace[OF assms]
  by (elim disjE exE conjE) (simp_all add: emitted_def)

lemma ca_template_fields:
  assumes "newCertificate ev v s = (Inr t0, s1)"
  shows "IsCA (ca_template t0)"
    and "KeyUsage (ca_template t0) = 37"
    and "Subject (ca_template t0) =
           \<lparr> Organization = [org], CommonName = ''Zarf Private Certificate Authority'' \<rparr>"
    and "NotBefore (ca_template t0) = NotBefore t0" and "NotAfter (ca_template t0) = NotAfter t0"
  using newCertificate_Inr[OF assms]
  by (simp_all add: ca_template_def KeyUsage_values KeyUsage_bits)

lemma host_template_fields:
  assumes "newCertificate ev v s = (Inr t0, s1)"
  shows "\<not> IsCA (host_template ev host t0)"
    and "KeyUsage (host_template ev host t0) = 5"
    and "NotBefore (host_template ev host t0) = NotBefore t0"
    and "NotAfter (host_template ev host t0) = NotAfter t0"
  using newCertificate_Inr[OF assms]
  by (simp_all add: host_template_def KeyUsage_values Let_def split: option.splits)

lemma ca_result_Inr:
  assumes "ca_result ev caFile t priv = Inr (ca, priv')"
  shows "priv' = priv \<and>
         (\<exists>der. env_CreateCertificate ev t t (rsa_Public priv) priv = Inr der \<and>
                env_ParseCertificate ev der = Inr ca \<and>
                env_Create ev caFile = None \<and>
                env_Encode ev caFile \<lparr> Type = ''CERTIFICATE'', Bytes = der \<rparr> = None)"
  using assms by (auto simp: ca_result_def split: sum.splits option.splits)

lemma test_generateCert_ip:
  "fst (generateCert test_env ''127.0.0.1'' ''server.crt'' ''server.key'' test_ca (test_key 0)
         validFor init_state) = Inr None"
  by (simp add: run_defs)

lemma test_generateCA:
  "fst (generateCA test_env ''ca.pem'' validFor init_state)
     = Inr (Inr (test_ca\<lparr>Raw := [48, 130, 0]\<rparr>, test_key 1))"
  by (simp add: run_defs)


lemma singleton_list: "length xs = 1 \<Longrightarrow> \<exists>x. xs = [x]"
  by (cases xs) auto


section \<open>The leaf template of an IP host\<close>

text \<open>
  C6. For every host that \<^verbatim>\<open>net.ParseIP\<close> accepts as the address \<open>ip\<close>, every template
  that \<^verbatim>\<open>generateCert\<close> hands to \<^verbatim>\<open>x509.CreateCertificate\<close> has exactly that one IP
  address and no DNS name. A run that returns \<^verbatim>\<open>nil\<close> has signed exactly one such
  template.
\<close>

theorem generateCert_ip_san:
  assumes "env_ParseIP ev host = Some ip"
    and "generateCert ev host certFile keyFile ca caKey validFor' s = (r, s')"
  shows "(\<forall>t \<in> set (signed_templates (emitted s s')).
            IPAddresses t = [ip] \<and> DNSNames t = []) \<and>
         (r = Inr None \<longrightarrow> length (signed_templates (emitted s s')) = 1)"
  using generateCert_templates[OF assms(2)] host_template_ip[OF _ assms(1)]
  by auto

theorem generateCert_ip_san_witness:
  "env_ParseIP test_env ''127.0.0.1'' = Some [127, 0, 0, 1] \<and>
   fst (generateCert test_env ''127.0.0.1'' ''server.crt'' ''server.key'' test_ca (test_key 0)
          validFor init_state) = Inr None \<and>
   map IPAddresses (signed_templates (emitted init_state
     (snd (generateCert test_env ''127.0.0.1'' ''server.crt'' ''server.key'' test_ca (test_key 0)
             validFor init_state)))) = [[[127, 0, 0, 1]]] \<and>
   map DNSNames (signed_templates (emitted init_state
     (snd (generateCert test_env ''127.0.0.1'' ''server.crt'' ''server.key'' test_ca (test_key 0)
             validFor init_state)))) = [[]]"
proof -
  let ?run = "generateCert test_env ''127.0.0.1'' ''server.crt'' ''server.key'' test_ca
                (test_key 0) validFor init_state"
  let ?ts = "signed_templates (emitted init_state (snd ?run))"
  have h1: "env_ParseIP test_env ''127.0.0.1'' = Some [127, 0, 0, 1]"
    by (simp add: test_env_def)
  have h2: "?run = (fst ?run, snd ?run)" by simp
  note fact = generateCert_ip_san[OF h1 h2]
  have "length ?ts = 1" using fact test_generateCert_ip by blast
  then obtain t where ts: "?ts = [t]" using singleton_list by blast
  then have "IPAddresses t = [[127, 0, 0, 1]] \<and> DNSNames t = []"
    using fact by simp
  with ts h1 test_generateCert_ip show ?thesis by simp
qed

text \<open>
  C10. For every host that \<^verbatim>\<open>net.ParseIP\<close> accepts, the subject of every template that
  \<^verbatim>\<open>generateCert\<close> hands to \<^verbatim>\<open>x509.CreateCertificate\<close> has an empty common name and
  only the fixed organization name.
\<close>

theorem generateCert_ip_common_name:
  assumes "env_ParseIP ev host = Some ip"
    and "generateCert ev host certFile keyFile ca caKey validFor' s = (r, s')"
  shows "(\<forall>t \<in> set (signed_templates (emitted s s')).
            CommonName (Subject t) = [] \<and> Organization (Subject t) = [org]) \<and>
         (r = Inr None \<longrightarrow> length (signed_templates (emitted s s')) = 1)"
  using generateCert_templates[OF assms(2)] host_template_ip[OF _ assms(1)]
  by auto

theorem generateCert_ip_common_name_witness:
  "env_ParseIP test_env ''127.0.0.1'' = Some [127, 0, 0, 1] \<and>
   fst (generateCert test_env ''127.0.0.1'' ''server.crt'' ''server.key'' test_ca (test_key 0)
          validFor init_state) = Inr None \<and>
   map Subject (signed_templates (emitted init_state
     (snd (generateCert test_env ''127.0.0.1'' ''server.crt'' ''server.key'' test_ca (test_key 0)
             validFor init_state)))) = [\<lparr> Organization = [''Zarf Utility Cluster''], CommonName = [] \<rparr>]"
proof -
  let ?run = "generateCert test_env ''127.0.0.1'' ''server.crt'' ''server.key'' test_ca
                (test_key 0) validFor init_state"
  let ?ts = "signed_templates (emitted init_state (snd ?run))"
  have h1: "env_ParseIP test_env ''127.0.0.1'' = Some [127, 0, 0, 1]"
    by (simp add: test_env_def)
  have h2: "?run = (fst ?run, snd ?run)" by simp
  note fact = generateCert_ip_common_name[OF h1 h2]
  have "length ?ts = 1" using fact test_generateCert_ip by blast
  then obtain t where ts: "?ts = [t]" using singleton_list by blast
  then have "CommonName (Subject t) = [] \<and> Organization (Subject t) = [org]"
    using fact by simp
  then have "Subject t = \<lparr> Organization = [''Zarf Utility Cluster''], CommonName = [] \<rparr>"
    by (simp add: org_def)
  with ts h1 test_generateCert_ip show ?thesis by simp
qed

section \<open>The trace of the whole bootstrap\<close>

lemma GeneratePKI_trace:
  assumes "GeneratePKI ev host s = (r, s')"
  defines "directory \<equiv> AssetPath ev ''certs''"
  defines "s0 \<equiv> emit (EvCreateDirectory directory perm_0700) s"
  shows "(s' = s0 \<and> (\<exists>f. r = Inl f)) \<or>
         (\<exists>ra s1. generateCA ev (env_Join ev directory ''zarf-ca.pem'') validFor s0 = (ra, s1) \<and>
            ((\<forall>x. ra \<noteq> Inr (Inr x)) \<and> s' = s1 \<and> (\<exists>f. r = Inl f) \<or>
             (\<exists>ca caKey rc s2. ra = Inr (Inr (ca, caKey)) \<and>
                generateCert ev host (env_Join ev directory ''zarf-server.crt'')
                  (env_Join ev directory ''zarf-server.key'') ca caKey validFor s1 = (rc, s2) \<and>
                (rc \<noteq> Inr None \<and> s' = s2 \<and> (\<exists>f. r = Inl f) \<or>
                 rc = Inr None \<and>
                 trace s' = trace s2 @
                   pki_tail ev directory (env_Join ev directory ''zarf-ca.pem'') ca))))"
proof (cases "env_CreateDirectory ev directory perm_0700")
  case (Some m)
  then have "s' = s0 \<and> (\<exists>f. r = Inl f)"
    using assms(1) unfolding directory_def s0_def
    by (auto simp: GeneratePKI_def CreateDirectory_def Let_def)
  then show ?thesis by blast
next
  case None
  note mk = this
  obtain ra s1 where ca: "generateCA ev (env_Join ev directory ''zarf-ca.pem'') validFor s0 = (ra, s1)"
    by (cases "generateCA ev (env_Join ev directory ''zarf-ca.pem'') validFor s0")
  show ?thesis
  proof (cases "\<exists>x. ra = Inr (Inr x)")
    case False
    then have "s' = s1 \<and> (\<exists>f. r = Inl f)"
      using assms(1) mk ca unfolding directory_def s0_def
      by (auto simp: GeneratePKI_def CreateDirectory_def Let_def split: sum.splits)
    with False ca show ?thesis by blast
  next
    case True
    then obtain cert caKey where ra: "ra = Inr (Inr (cert, caKey))" by auto
    obtain rc s2 where
      gc: "generateCert ev host (env_Join ev directory ''zarf-server.crt'')
             (env_Join ev directory ''zarf-server.key'') cert caKey validFor s1 = (rc, s2)"
      by (cases "generateCert ev host (env_Join ev directory ''zarf-server.crt'')
             (env_Join ev directory ''zarf-server.key'') cert caKey validFor s1")
    have "rc \<noteq> Inr None \<and> s' = s2 \<and> (\<exists>f. r = Inl f) \<or>
          rc = Inr None \<and>
           trace s' = trace s2 @ pki_tail ev directory (env_Join ev directory ''zarf-ca.pem'') cert"
      using assms(1) mk ca ra gc unfolding directory_def s0_def
      by (auto simp: GeneratePKI_def CreateDirectory_def Let_def ExecCommand_def fmt_Println_def
          emit_def pki_tail_def split: sum.splits option.splits)
    with ca ra gc show ?thesis by blast
  qed
qed


lemma opened_files_append [simp]: "opened_files (xs @ ys) = opened_files xs @ opened_files ys"
  by (induction xs rule: opened_files.induct) auto

lemma encoded_blocks_append [simp]:
  "encoded_blocks (xs @ ys) = encoded_blocks xs @ encoded_blocks ys"
  by (induction xs rule: encoded_blocks.induct) auto

lemma openfile_calls_append [simp]:
  "openfile_calls (xs @ ys) = openfile_calls xs @ openfile_calls ys"
  by (induction xs rule: openfile_calls.induct) auto

lemma pki_tail_observed [simp]:
  "signed_templates (pki_tail ev directory caFile ca) = []"
  "opened_files (pki_tail ev directory caFile ca) = []"
  "encoded_blocks (pki_tail ev directory caFile ca) = []"
  "openfile_calls (pki_tail ev directory caFile ca) = []"
  by (simp_all add: pki_tail_def split: option.splits)

lemma key_events_observed:
  "opened_files (key_events ev key keyFile) = [keyFile]"
  "openfile_calls (key_events ev key keyFile) = [(keyFile, [O_WRONLY, O_CREATE, O_TRUNC], perm_0600)]"
  "encoded_blocks (key_events ev key keyFile) =
     (case env_OpenFile ev keyFile of
        Some err \<Rightarrow> []
      | None \<Rightarrow> [(keyFile, \<lparr> Type = ''RSA PRIVATE KEY'', Bytes = env_MarshalPKCS1PrivateKey ev key \<rparr>)])"
  by (simp_all add: key_events_def split: option.splits)

lemma ca_events_observed:
  "openfile_calls (ca_events ev caFile t priv) = []"
  "opened_files (ca_events ev caFile t priv) = [] \<or> opened_files (ca_events ev caFile t priv) = [caFile]"
  "encoded_blocks (ca_events ev caFile t priv) = [] \<or>
   (\<exists>der. env_CreateCertificate ev t t (rsa_Public priv) priv = Inr der \<and>
      encoded_blocks (ca_events ev caFile t priv) = [(caFile, \<lparr> Type = ''CERTIFICATE'', Bytes = der \<rparr>)])"
  by (simp_all add: ca_events_def split: sum.splits option.splits)

lemma ca_events_success:
  assumes "ca_result ev caFile t priv = Inr x"
  shows "opened_files (ca_events ev caFile t priv) = [caFile]"
    and "\<exists>der. env_CreateCertificate ev t t (rsa_Public priv) priv = Inr der \<and>
           encoded_blocks (ca_events ev caFile t priv) = [(caFile, \<lparr> Type = ''CERTIFICATE'', Bytes = der \<rparr>)] \<and>
           written (ca_events ev caFile t priv) caFile \<lparr> Type = ''CERTIFICATE'', Bytes = der \<rparr>"
  using assms
  by (auto simp: ca_events_def ca_result_def written_def split: sum.splits option.splits)

lemma leaf_events_observed:
  "\<forall>c \<in> set (openfile_calls (leaf_events ev certFile keyFile t p key pk)).
      c = (keyFile, [O_WRONLY, O_CREATE, O_TRUNC], perm_0600)"
  "\<forall>(name, b) \<in> set (encoded_blocks (leaf_events ev certFile keyFile t p key pk)).
      (Type b = ''RSA PRIVATE KEY'' \<longrightarrow> name = keyFile)"
  by (auto simp: leaf_events_def key_events_observed split: sum.splits option.splits)

lemma leaf_events_success:
  assumes "(case env_CreateCertificate ev t p (rsa_Public key) pk of
              Inl err \<Rightarrow> Some err
            | Inr derBytes \<Rightarrow>
                (case env_Create ev certFile of
                   Some err \<Rightarrow> Some err
                 | None \<Rightarrow> env_OpenFile ev keyFile)) = None"
  shows "opened_files (leaf_events ev certFile keyFile t p key pk) = [certFile, keyFile]"
    and "openfile_calls (leaf_events ev certFile keyFile t p key pk)
           = [(keyFile, [O_WRONLY, O_CREATE, O_TRUNC], perm_0600)]"
    and "map (\<lambda>(name, b). (name, Type b)) (encoded_blocks (leaf_events ev certFile keyFile t p key pk))
           = [(certFile, ''CERTIFICATE''), (keyFile, ''RSA PRIVATE KEY'')]"
  using assms
  by (auto simp: leaf_events_def key_events_observed split: sum.splits option.splits)

lemma newCertificate_counters:
  assumes "newCertificate ev v s = (r, s1)"
  shows "clock_reads s1 = Suc (clock_reads s) \<and> rand_draws s1 = Suc (rand_draws s)"
  using assms
  by (auto simp: newCertificate_def time_Now_def time_Add_def rand_Int_def split: sum.splits)

lemma newPrivateKey_result:
  assumes "newPrivateKey ev s = (r, s1)"
  shows "r = env_GenerateKey ev (rand_draws s) rsaBits \<and> clock_reads s1 = clock_reads s"
  using assms by (auto simp: newPrivateKey_def rsa_GenerateKey_def)

lemma generateCA_clock:
  assumes "generateCA ev caFile v s = (r, s')"
  shows "clock_reads s' = Suc (clock_reads s)"
proof -
  obtain a s1 where nc: "newCertificate ev v s = (a, s1)" by (cases "newCertificate ev v s")
  obtain b s2 where pk: "newPrivateKey ev s1 = (b, s2)" by (cases "newPrivateKey ev s1")
  have "clock_reads s' = clock_reads s1"
    using assms nc pk newPrivateKey_result[OF pk]
    by (auto simp: generateCA_def Let_def x509_CreateCertificate_def os_Create_def pem_Encode_def
        file_Close_def emit_def split: sum.splits option.splits)
  with newCertificate_counters[OF nc] show ?thesis by simp
qed


lemma GeneratePKI_emitted:
  assumes "GeneratePKI ev host s = (r, s')"
  defines "directory \<equiv> AssetPath ev ''certs''"
  defines "caFile \<equiv> env_Join ev directory ''zarf-ca.pem''"
  defines "hostCert \<equiv> env_Join ev directory ''zarf-server.crt''"
  defines "hostKey \<equiv> env_Join ev directory ''zarf-server.key''"
  shows "\<exists>A B C. emitted s s' = EvCreateDirectory directory perm_0700 # A @ B @ C \<and>
           signed_templates C = [] \<and> opened_files C = [] \<and> encoded_blocks C = [] \<and>
           openfile_calls C = [] \<and>
           (A = [] \<and> B = [] \<and> r \<noteq> Inr () \<or>
            (\<exists>u t0 u1 priv. clock_reads u = clock_reads s \<and>
               newCertificate ev validFor u = (Inr t0, u1) \<and>
               A = ca_events ev caFile (ca_template t0) priv \<and>
               (B = [] \<and> r \<noteq> Inr () \<or>
                (\<exists>x v t1 v1 ca key caKey.
                   ca_result ev caFile (ca_template t0) priv = Inr x \<and>
                   clock_reads v = Suc (clock_reads s) \<and>
                   newCertificate ev validFor v = (Inr t1, v1) \<and>
                   B = leaf_events ev hostCert hostKey (host_template ev host t1) ca key caKey \<and>
                   (r = Inr () \<longrightarrow>
                      leaf_result ev hostCert hostKey (host_template ev host t1) ca key caKey
                        = None)))))"
proof -
  let ?s0 = "emit (EvCreateDirectory directory perm_0700) s"
  have s0: "trace ?s0 = trace s @ [EvCreateDirectory directory perm_0700]"
    "clock_reads ?s0 = clock_reads s"
    by (simp_all add: emit_def)
  from GeneratePKI_trace[OF assms(1)]
  consider
    (mkdir) "s' = ?s0" "r \<noteq> Inr ()"
  | (ca_failed) ra s1 where
      "generateCA ev caFile validFor ?s0 = (ra, s1)" "\<forall>x. ra \<noteq> Inr (Inr x)" "s' = s1" "r \<noteq> Inr ()"
  | (leaf) ra s1 ca caKey rc s2 where
      "generateCA ev caFile validFor ?s0 = (ra, s1)" "ra = Inr (Inr (ca, caKey))"
      "generateCert ev host hostCert hostKey ca caKey validFor s1 = (rc, s2)"
      "rc \<noteq> Inr None \<and> s' = s2 \<and> r \<noteq> Inr () \<or>
       rc = Inr None \<and> trace s' = trace s2 @ pki_tail ev directory caFile ca"
    unfolding directory_def caFile_def hostCert_def hostKey_def by fastforce
  then show ?thesis
  proof cases
    case mkdir
    have "emitted s s' = EvCreateDirectory directory perm_0700 # [] @ [] @ []"
      using mkdir(1) s0 by (simp add: emitted_def)
    with mkdir(2) show ?thesis by (intro exI[of _ "[]"]) simp
  next
    case ca_failed
    from generateCA_trace[OF ca_failed(1)] ca_failed(2)
    consider "trace s1 = trace ?s0" |
      (signed) t0 u1 priv where "newCertificate ev validFor ?s0 = (Inr t0, u1)"
        "trace s1 = trace ?s0 @ ca_events ev caFile (ca_template t0) priv"
      by auto
    then show ?thesis
    proof cases
      case 1
      then have "emitted s s' = EvCreateDirectory directory perm_0700 # [] @ [] @ []"
        using ca_failed(3) s0 by (simp add: emitted_def)
      with ca_failed(4) show ?thesis by (intro exI[of _ "[]"]) simp
    next
      case signed
      have "emitted s s' = EvCreateDirectory directory perm_0700 #
              ca_events ev caFile (ca_template t0) priv @ [] @ []"
        using signed(2) ca_failed(3) s0 by (simp add: emitted_def)
      with signed(1) s0(2) ca_failed(4) show ?thesis
        by (intro exI[of _ "ca_events ev caFile (ca_template t0) priv"] exI[of _ "[]"]) auto
    qed
  next
    case leaf
    from generateCA_trace[OF leaf(1)] leaf(2) obtain t0 u1 priv where
      ca: "newCertificate ev validFor ?s0 = (Inr t0, u1)"
        "ca_result ev caFile (ca_template t0) priv = Inr (ca, caKey)"
        "trace s1 = trace ?s0 @ ca_events ev caFile (ca_template t0) priv"
      by auto
    have clk: "clock_reads s1 = Suc (clock_reads s)"
      using generateCA_clock[OF leaf(1)] s0(2) by simp
    let ?A = "ca_events ev caFile (ca_template t0) priv"
    let ?C = "if rc = Inr None then pki_tail ev directory caFile ca else []"
    have tail: "trace s' = trace s2 @ ?C" "rc \<noteq> Inr None \<longrightarrow> r \<noteq> Inr ()"
      using leaf(4) by auto
    have Cobs: "signed_templates ?C = []" "opened_files ?C = []" "encoded_blocks ?C = []"
      "openfile_calls ?C = []" by simp_all
    from generateCert_trace[OF leaf(3)]
    consider (quiet) "trace s2 = trace s1" "rc \<noteq> Inr None" |
      (signed) t1 v1 key r' where "newCertificate ev validFor s1 = (Inr t1, v1)"
        "generateFromTemplate ev hostCert hostKey (host_template ev host t1) ca key caKey
           (snd (newPrivateKey ev v1)) = (r', s2)"
        "rc = Inr r'"
        "trace s2 = trace s1 @ leaf_events ev hostCert hostKey (host_template ev host t1) ca key caKey"
      by fastforce
    then show ?thesis
    proof cases
      case quiet
      have "emitted s s' = EvCreateDirectory directory perm_0700 # ?A @ [] @ ?C"
        using quiet(1) tail(1) ca(3) s0 by (simp add: emitted_def)
      moreover have "r \<noteq> Inr ()" using quiet(2) tail(2) by simp
      ultimately show ?thesis using ca(1) s0(2) Cobs
        by (intro exI[of _ ?A] exI[of _ "[]"] exI[of _ ?C]) auto
    next
      case signed
      let ?B = "leaf_events ev hostCert hostKey (host_template ev host t1) ca key caKey"
      have em: "emitted s s' = EvCreateDirectory directory perm_0700 # ?A @ ?B @ ?C"
        using signed(4) tail(1) ca(3) s0 by (simp add: emitted_def)
      have res: "r = Inr () \<longrightarrow>
                   leaf_result ev hostCert hostKey (host_template ev host t1) ca key caKey = None"
        using generateFromTemplate_trace[OF signed(2)] signed(3) tail(2)
        by (auto simp: leaf_result_def)
      show ?thesis
        using em Cobs ca(1,2) s0(2) clk signed(1) res
        by (intro exI[of _ ?A] exI[of _ ?B] exI[of _ ?C]) blast
    qed
  qed
qed


lemma validFor_value: "validFor = 375 * (24 * time_Hour)" "validFor = 32400000000000000"
  by (simp_all add: validFor_def time_Hour_def)

lemma newCertificate_validity:
  assumes "newCertificate ev validFor s = (Inr t, s1)"
  shows "NotBefore t = env_Now ev (clock_reads s)"
    and "time_Sub (NotAfter t) (NotBefore t) = validFor"
  using newCertificate_Inr(1,2)[OF assms]
  by (simp_all add: time_Sub_def validFor_value(2))

lemma perm_values: "perm_0600 = 384" "perm_0700 = 448" "perm_group_other = 63"
  by (simp_all add: perm_0600_def perm_0700_def perm_group_other_def)

lemma perm_bits: "(384::nat) AND 63 = 0" "(448::nat) AND 63 = 0"
  by simp_all

lemma written_append:
  "written (xs @ ys) name b \<longleftrightarrow> written xs name b \<or> written ys name b"
  "written (e # xs) name b \<longleftrightarrow> e = EvEncode name b None \<or> written xs name b"
  by (auto simp: written_def)

lemma ca_events_encoded:
  assumes "(name, b) \<in> set (encoded_blocks (ca_events ev caFile t priv))"
  shows "name = caFile \<and> Type b = ''CERTIFICATE''"
  using assms ca_events_observed(3)[of ev caFile t priv] by auto

lemma test_GeneratePKI: "fst (GeneratePKI test_env ''example.org'' init_state) = Inr ()"
  by (simp add: run_defs)

lemma test_savePrivateKey:
  "fst (savePrivateKey test_env (test_key 0) ''server.key'' init_state) = None"
  by (simp add: run_defs)

lemma test_newCertificate:
  "fst (newCertificate test_env validFor init_state) =
     Inr \<lparr> Raw = [], SerialNumber = 0,
           Subject = \<lparr> Organization = [org], CommonName = [] \<rparr>,
           NotBefore = 1700000000, NotAfter = 1700000000 + validFor,
           KeyUsage = 5, BasicConstraintsValid = True, IsCA = False,
           DNSNames = [], IPAddresses = [] \<rparr>"
  by (simp add: run_defs KeyUsage_values)

lemma emitted_init [simp]: "emitted init_state s = trace s"
  by (simp add: emitted_def init_state_def)

lemma test_paths:
  "env_Join test_env (AssetPath test_env ''certs'') ''zarf-ca.pem'' = ''/opt/zarf/certs/zarf-ca.pem''"
  "env_Join test_env (AssetPath test_env ''certs'') ''zarf-server.crt'' = ''/opt/zarf/certs/zarf-server.crt''"
  "env_Join test_env (AssetPath test_env ''certs'') ''zarf-server.key'' = ''/opt/zarf/certs/zarf-server.key''"
  "AssetPath test_env ''certs'' = ''/opt/zarf/certs''"
  by (simp_all add: test_env_def AssetPath_def)

section \<open>The validity window\<close>

text \<open>
  C3. Every template \<^verbatim>\<open>newCertificate\<close> builds for the configured duration has
  \<open>notBefore\<close> equal to the clock reading taken at that call and \<open>notAfter - notBefore\<close>
  equal to \<open>validFor\<close>, which is 375 days of 24 hours. In a run of \<^verbatim>\<open>GeneratePKI\<close> every
  signed template, the CA's and the leaf's, has that same validity, with \<open>notBefore\<close> the
  first or the second clock reading of the run; a successful run signs two templates.
\<close>

theorem certificate_validity:
  assumes "newCertificate ev validFor s = (Inr t, s')"
    and "GeneratePKI ev2 host u = (q, u')"
  shows "NotBefore t = env_Now ev (clock_reads s) \<and>
         time_Sub (NotAfter t) (NotBefore t) = validFor \<and>
         validFor = 375 * (24 * time_Hour) \<and>
         (\<forall>c \<in> set (signed_templates (emitted u u')).
            time_Sub (NotAfter c) (NotBefore c) = validFor \<and>
            (NotBefore c = env_Now ev2 (clock_reads u) \<or>
             NotBefore c = env_Now ev2 (Suc (clock_reads u)))) \<and>
         (q = Inr () \<longrightarrow> length (signed_templates (emitted u u')) = 2)"
proof -
  from GeneratePKI_emitted[OF assms(2)] obtain A B C where
    em: "emitted u u' = EvCreateDirectory (AssetPath ev2 ''certs'') perm_0700 # A @ B @ C"
    and C: "signed_templates C = []"
    and AB0: "A = [] \<and> B = [] \<and> q \<noteq> Inr () \<or>
            (\<exists>w t0 w1 priv. clock_reads w = clock_reads u \<and>
               newCertificate ev2 validFor w = (Inr t0, w1) \<and>
               A = ca_events ev2 (env_Join ev2 (AssetPath ev2 ''certs'') ''zarf-ca.pem'')
                     (ca_template t0) priv \<and>
               (B = [] \<and> q \<noteq> Inr () \<or>
                (\<exists>x v t1 v1 ca key caKey.
                   ca_result ev2 (env_Join ev2 (AssetPath ev2 ''certs'') ''zarf-ca.pem'')
                     (ca_template t0) priv = Inr x \<and>
                   clock_reads v = Suc (clock_reads u) \<and>
                   newCertificate ev2 validFor v = (Inr t1, v1) \<and>
                   B = leaf_events ev2 (env_Join ev2 (AssetPath ev2 ''certs'') ''zarf-server.crt'')
                         (env_Join ev2 (AssetPath ev2 ''certs'') ''zarf-server.key'')
                         (host_template ev2 host t1) ca key caKey \<and>
                   (q = Inr () \<longrightarrow>
                      leaf_result ev2 (env_Join ev2 (AssetPath ev2 ''certs'') ''zarf-server.crt'')
                        (env_Join ev2 (AssetPath ev2 ''certs'') ''zarf-server.key'')
                        (host_template ev2 host t1) ca key caKey = None))))"
    by blast
  from AB0 consider
    (none) "A = []" "B = []" "q \<noteq> Inr ()"
  | (ca_only) w t0 w1 where "clock_reads w = clock_reads u"
      "newCertificate ev2 validFor w = (Inr t0, w1)" "signed_templates A = [ca_template t0]"
      "B = []" "q \<noteq> Inr ()"
  | (both) w t0 w1 v t1 v1 where "clock_reads w = clock_reads u"
      "newCertificate ev2 validFor w = (Inr t0, w1)" "signed_templates A = [ca_template t0]"
      "clock_reads v = Suc (clock_reads u)"
      "newCertificate ev2 validFor v = (Inr t1, v1)"
      "signed_templates B = [host_template ev2 host t1]"
  proof (elim disjE exE conjE, goal_cases)
    case 1 then show ?case by blast
  next
    case (2 w t0 w1 priv)
    then show ?case using signed_templates_ca_events by metis
  next
    case (3 w t0 w1 priv x v t1 v1 ca key caKey)
    have "signed_templates A = [ca_template t0]" "signed_templates B = [host_template ev2 host t1]"
      using 3 by simp_all
    with 3(3)[OF 3(4,5) _ 3(8,9)] show ?case by blast
  qed
  note cases3 = this
  have ts: "signed_templates (emitted u u') = signed_templates A @ signed_templates B"
    using em C by simp
  have ca: "NotBefore (ca_template t0) = env_Now ev2 (clock_reads w) \<and>
            time_Sub (NotAfter (ca_template t0)) (NotBefore (ca_template t0)) = validFor"
    if "newCertificate ev2 validFor w = (Inr t0, w1)" for w t0 w1
    using newCertificate_validity[OF that] ca_template_fields(4,5)[OF that] by simp
  have leaf: "NotBefore (host_template ev2 host t1) = env_Now ev2 (clock_reads v) \<and>
              time_Sub (NotAfter (host_template ev2 host t1)) (NotBefore (host_template ev2 host t1))
                = validFor"
    if "newCertificate ev2 validFor v = (Inr t1, v1)" for v t1 v1
    using newCertificate_validity[OF that] host_template_fields(3,4)[OF that] by simp
  have "(\<forall>c \<in> set (signed_templates (emitted u u')).
            time_Sub (NotAfter c) (NotBefore c) = validFor \<and>
            (NotBefore c = env_Now ev2 (clock_reads u) \<or>
             NotBefore c = env_Now ev2 (Suc (clock_reads u)))) \<and>
        (q = Inr () \<longrightarrow> length (signed_templates (emitted u u')) = 2)"
  proof (rule cases3)
    assume "A = []" "B = []" "q \<noteq> Inr ()"
    then show ?thesis using ts by simp
  next
    fix w t0 w1
    assume h: "clock_reads w = clock_reads u"
      "newCertificate ev2 validFor w = (Inr t0, w1)" "signed_templates A = [ca_template t0]"
      "B = []" "q \<noteq> Inr ()"
    have "signed_templates (emitted u u') = [ca_template t0]" using ts h by simp
    then show ?thesis using h(1,5) ca[OF h(2)] by auto
  next
    fix w t0 w1 v t1 v1
    assume h: "clock_reads w = clock_reads u"
      "newCertificate ev2 validFor w = (Inr t0, w1)" "signed_templates A = [ca_template t0]"
      "clock_reads v = Suc (clock_reads u)"
      "newCertificate ev2 validFor v = (Inr t1, v1)"
      "signed_templates B = [host_template ev2 host t1]"
    have "signed_templates (emitted u u') = [ca_template t0, host_template ev2 host t1]"
      using ts h by simp
    then show ?thesis using h(1,4) ca[OF h(2)] leaf[OF h(5)] by auto
  qed
  with newCertificate_validity[OF assms(1)] validFor_value(1) show ?thesis by blast
qed
theorem certificate_validity_witness:
  "NotBefore (projr (fst (newCertificate test_env validFor init_state))) = 1700000000 \<and>
   time_Sub (NotAfter (projr (fst (newCertificate test_env validFor init_state))))
            (NotBefore (projr (fst (newCertificate test_env validFor init_state))))
     = 375 * (24 * time_Hour) \<and>
   fst (GeneratePKI test_env ''example.org'' init_state) = Inr () \<and>
   length (signed_templates (emitted init_state
     (snd (GeneratePKI test_env ''example.org'' init_state)))) = 2"
proof -
  let ?nc = "newCertificate test_env validFor init_state"
  let ?run = "GeneratePKI test_env ''example.org'' init_state"
  have h1: "?nc = (Inr (projr (fst ?nc)), snd ?nc)"
    using test_newCertificate by (simp add: prod_eq_iff)
  have h2: "?run = (fst ?run, snd ?run)" by simp
  note fact = certificate_validity[OF h1 h2]
  have now: "env_Now test_env (clock_reads init_state) = 1700000000"
    by (simp add: test_env_def init_state_def)
  have a: "NotBefore (projr (fst ?nc)) = 1700000000"
    using fact[THEN conjunct1] now by (rule trans)
  have b: "time_Sub (NotAfter (projr (fst ?nc))) (NotBefore (projr (fst ?nc))) = validFor"
    using fact[THEN conjunct2, THEN conjunct1] .
  have c: "validFor = 375 * (24 * time_Hour)"
    using fact[THEN conjunct2, THEN conjunct2, THEN conjunct1] .
  have d: "length (signed_templates (emitted init_state (snd ?run))) = 2"
    using fact[THEN conjunct2, THEN conjunct2, THEN conjunct2, THEN conjunct2] test_GeneratePKI
    by (rule mp)
  from a b[THEN trans, OF c] test_GeneratePKI d show ?thesis by (intro conjI)
qed

text \<open>
  The validity is 375 days, not thirteen months: thirteen consecutive calendar months
  span at least 365 + 28 = 393 days.
\<close>

theorem certificate_validity_counterexample:
  "map (\<lambda>t. time_Sub (NotAfter t) (NotBefore t))
     (signed_templates (trace (snd (GeneratePKI test_env ''example.org'' init_state))))
     = [375 * (24 * time_Hour), 375 * (24 * time_Hour)] \<and>
   375 * (24 * time_Hour) < 393 * (24 * time_Hour)"
  by (simp add: run_defs time_Sub_def validFor_def time_Hour_def)

section \<open>The CA key stays in memory\<close>

text \<open>
  C9. In every run of \<^verbatim>\<open>generateCA\<close>, whatever its result, the only file opened is the
  destination file, \<^verbatim>\<open>os.OpenFile\<close> is never called, and at most one PEM block is
  encoded: to the destination file, with the label \<^verbatim>\<open>CERTIFICATE\<close> and the bytes that
  \<^verbatim>\<open>x509.CreateCertificate\<close> returned for the signed template. On success that block has
  been written, the certificate returned is the parse of its bytes, and the private key
  returned is the one \<^verbatim>\<open>rsa.GenerateKey\<close> produced.
\<close>

theorem generateCA_writes_only_certificate:
  assumes "generateCA ev caFile validFor' s = (r, s')"
  shows "set (opened_files (emitted s s')) \<subseteq> {caFile} \<and>
         openfile_calls (emitted s s') = [] \<and>
         length (encoded_blocks (emitted s s')) \<le> 1 \<and>
         (\<forall>(name, b) \<in> set (encoded_blocks (emitted s s')).
            name = caFile \<and> Type b = ''CERTIFICATE'' \<and>
            (\<exists>t priv. t \<in> set (signed_templates (emitted s s')) \<and>
               env_CreateCertificate ev t t (rsa_Public priv) priv = Inr (Bytes b))) \<and>
         (\<forall>cert priv. r = Inr (Inr (cert, priv)) \<longrightarrow>
            env_GenerateKey ev (Suc (rand_draws s)) rsaBits = Inr priv \<and>
            opened_files (emitted s s') = [caFile] \<and>
            (\<exists>der. encoded_blocks (emitted s s')
                      = [(caFile, \<lparr> Type = ''CERTIFICATE'', Bytes = der \<rparr>)] \<and>
                   written (emitted s s') caFile \<lparr> Type = ''CERTIFICATE'', Bytes = der \<rparr> \<and>
                   env_ParseCertificate ev der = Inr cert))"
  using generateCA_trace[OF assms]
proof (elim disjE exE conjE)
  fix f s1
  assume "trace s' = trace s" "r = Inl f"
  then show ?thesis by (simp add: emitted_def)
next
  fix t0 s1 err s2
  assume "trace s' = trace s" "r = Inr (Inl err)"
  then show ?thesis by (simp add: emitted_def)
next
  fix t0 s1 priv s2
  assume nc: "newCertificate ev validFor' s = (Inr t0, s1)"
    and pk: "newPrivateKey ev s1 = (Inr priv, s2)"
    and r: "r = Inr (ca_result ev caFile (ca_template t0) priv)"
    and tr: "trace s' = trace s @ ca_events ev caFile (ca_template t0) priv"
  have em: "emitted s s' = ca_events ev caFile (ca_template t0) priv"
    using tr by (rule emitted_append)
  have key: "env_GenerateKey ev (Suc (rand_draws s)) rsaBits = Inr priv"
    using newPrivateKey_result[OF pk] newCertificate_counters[OF nc] by simp
  have a: "set (opened_files (emitted s s')) \<subseteq> {caFile}"
    using ca_events_observed(2)[of ev caFile "ca_template t0" priv] em by auto
  have b: "openfile_calls (emitted s s') = []"
    using em by (simp add: ca_events_observed)
  have c: "length (encoded_blocks (emitted s s')) \<le> 1"
    using ca_events_observed(3)[of ev caFile "ca_template t0" priv] em by auto
  have d: "\<forall>(name, b) \<in> set (encoded_blocks (emitted s s')).
            name = caFile \<and> Type b = ''CERTIFICATE'' \<and>
            (\<exists>t priv. t \<in> set (signed_templates (emitted s s')) \<and>
               env_CreateCertificate ev t t (rsa_Public priv) priv = Inr (Bytes b))"
    using ca_events_observed(3)[of ev caFile "ca_template t0" priv] em by auto
  have e: "\<forall>cert priv'. r = Inr (Inr (cert, priv')) \<longrightarrow>
            env_GenerateKey ev (Suc (rand_draws s)) rsaBits = Inr priv' \<and>
            opened_files (emitted s s') = [caFile] \<and>
            (\<exists>der. encoded_blocks (emitted s s')
                      = [(caFile, \<lparr> Type = ''CERTIFICATE'', Bytes = der \<rparr>)] \<and>
                   written (emitted s s') caFile \<lparr> Type = ''CERTIFICATE'', Bytes = der \<rparr> \<and>
                   env_ParseCertificate ev der = Inr cert)"
  proof (intro allI impI)
    fix cert priv'
    assume "r = Inr (Inr (cert, priv'))"
    then have cr: "ca_result ev caFile (ca_template t0) priv = Inr (cert, priv')" using r by simp
    from ca_result_Inr[OF cr] obtain der where
      p: "priv' = priv" and
      der: "env_CreateCertificate ev (ca_template t0) (ca_template t0) (rsa_Public priv) priv = Inr der"
        "env_ParseCertificate ev der = Inr cert" by blast
    from ca_events_success[OF cr] der(1) have
      "opened_files (emitted s s') = [caFile]"
      "encoded_blocks (emitted s s') = [(caFile, \<lparr> Type = ''CERTIFICATE'', Bytes = der \<rparr>)]"
      "written (emitted s s') caFile \<lparr> Type = ''CERTIFICATE'', Bytes = der \<rparr>"
      using em by auto
    with key p der(2) show "env_GenerateKey ev (Suc (rand_draws s)) rsaBits = Inr priv' \<and>
            opened_files (emitted s s') = [caFile] \<and>
            (\<exists>der. encoded_blocks (emitted s s')
                      = [(caFile, \<lparr> Type = ''CERTIFICATE'', Bytes = der \<rparr>)] \<and>
                   written (emitted s s') caFile \<lparr> Type = ''CERTIFICATE'', Bytes = der \<rparr> \<and>
                   env_ParseCertificate ev der = Inr cert)" by blast
  qed
  from a b c d e show ?thesis by blast
qed


theorem generateCA_writes_only_certificate_witness:
  "fst (generateCA test_env ''ca.pem'' validFor init_state)
     = Inr (Inr (test_ca\<lparr>Raw := [48, 130, 0]\<rparr>, test_key 1)) \<and>
   opened_files (emitted init_state (snd (generateCA test_env ''ca.pem'' validFor init_state)))
     = [''ca.pem''] \<and>
   openfile_calls (emitted init_state (snd (generateCA test_env ''ca.pem'' validFor init_state)))
     = [] \<and>
   map (\<lambda>(name, b). (name, Type b))
     (encoded_blocks (emitted init_state (snd (generateCA test_env ''ca.pem'' validFor init_state))))
     = [(''ca.pem'', ''CERTIFICATE'')]"
proof -
  let ?run = "generateCA test_env ''ca.pem'' validFor init_state"
  have h: "?run = (fst ?run, snd ?run)" by simp
  note fact = generateCA_writes_only_certificate[OF h]
  from fact test_generateCA obtain der where
    "encoded_blocks (emitted init_state (snd ?run))
       = [(''ca.pem'', \<lparr> Type = ''CERTIFICATE'', Bytes = der \<rparr>)]"
    by blast
  then have "map (\<lambda>(name, b). (name, Type b)) (encoded_blocks (emitted init_state (snd ?run)))
     = [(''ca.pem'', ''CERTIFICATE'')]" by simp
  with fact test_generateCA show ?thesis by blast
qed

section \<open>Dropped write errors of the leaf files\<close>

text \<open>
  C1. On a full disk, where every \<^verbatim>\<open>pem.Encode\<close> to a file fails, \<^verbatim>\<open>generateCert\<close> and
  \<^verbatim>\<open>savePrivateKey\<close> still return \<^verbatim>\<open>nil\<close> although no block has been written, while
  \<^verbatim>\<open>generateCA\<close>, which checks the result of \<^verbatim>\<open>pem.Encode\<close>, returns the error.
\<close>

theorem leaf_write_error_returns_nil:
  "fst (generateCert full_disk_env ''example.org'' ''server.crt'' ''server.key'' test_ca
          (test_key 0) validFor init_state) = Inr None \<and>
   encode_results (trace (snd (generateCert full_disk_env ''example.org'' ''server.crt''
          ''server.key'' test_ca (test_key 0) validFor init_state)))
     = [Some (Error ''no space left on device''), Some (Error ''no space left on device'')] \<and>
   fst (savePrivateKey full_disk_env (test_key 0) ''server.key'' init_state) = None \<and>
   encode_results (trace (snd (savePrivateKey full_disk_env (test_key 0) ''server.key''
          init_state)))
     = [Some (Error ''no space left on device'')] \<and>
   fst (generateCA full_disk_env ''ca.pem'' validFor init_state)
     = Inr (Inl (Error ''no space left on device''))"
  by (simp add: run_defs)

section \<open>The random secret generator\<close>

lemma RandomString_loop_map:
  "RandomString_loop i bytes = take i bytes @ map pick (drop i bytes)"
proof (induction i bytes rule: RandomString_loop.induct)
  case (1 i bytes)
  show ?case
  proof (cases "i < length bytes")
    case True
    have "RandomString_loop i bytes = RandomString_loop (Suc i) (bytes[i := pick (bytes ! i)])"
      using True by (subst RandomString_loop.simps) (simp add: pick_def)
    also have "\<dots> = take (Suc i) (bytes[i := pick (bytes ! i)])
                      @ map pick (drop (Suc i) (bytes[i := pick (bytes ! i)]))"
      using 1[OF True] by (simp add: pick_def)
    also have "\<dots> = take i bytes @ map pick (drop i bytes)"
      using True by (simp add: take_Suc_conv_app_nth Cons_nth_drop_Suc[symmetric])
    finally show ?thesis .
  next
    case False
    then show ?thesis by (subst RandomString_loop.simps) simp
  qed
qed

lemma length_randomStringChars: "length randomStringChars = 65"
  by (simp add: randomStringChars_def)

lemma distinct_randomStringChars: "distinct randomStringChars"
  by (simp add: randomStringChars_def)

lemma card_randomStringChars: "card (set randomStringChars) = 65"
  using distinct_card[OF distinct_randomStringChars] length_randomStringChars by simp

lemma char_of_pick:
  "char_of (unat (pick b)) = randomStringChars ! (unat b mod 65)"
  unfolding pick_def byte_of_char_def length_randomStringChars
  by (simp add: unat_of_nat unat_mod)

lemma RandomString_success:
  assumes "0 \<le> n" "n \<le> int (maxAlloc rt)" "n \<le> int (memory rt)" "nat n \<le> length source"
  shows "RandomString rt source n
           = Inr (map (\<lambda>b. randomStringChars ! (unat b mod 65)) (take (nat n) source))"
proof -
  have "rand_Read source (replicate (nat n) 0) = Inr (take (nat n) source)"
    using assms by (simp add: rand_Read_def)
  then show ?thesis
    using assms
    by (simp add: RandomString_def RandomString_loop_map string_of_bytes_def char_of_pick o_def)
qed

lemma RandomString_fatal:
  assumes "0 \<le> n" "n \<le> int (maxAlloc rt)" "n \<le> int (memory rt)" "length source < nat n"
  shows "RandomString rt source n = Inl (Fatal ''unable to generate a random secret'')"
  using assms by (simp add: RandomString_def rand_Read_def)

lemma RandomString_panic:
  assumes "n < 0 \<or> int (maxAlloc rt) < n"
  shows "RandomString rt source n = Inl (Panic ''runtime error: makeslice: len out of range'')"
  using assms by (auto simp: RandomString_def)

lemma RandomString_throw:
  assumes "0 \<le> n" "n \<le> int (maxAlloc rt)" "int (memory rt) < n"
  shows "RandomString rt source n = Inl (Throw ''runtime: out of memory'')"
  using assms by (simp add: RandomString_def)

lemma RandomString_single:
  assumes "1 \<le> maxAlloc rt" "1 \<le> memory rt"
  shows "RandomString rt [b] 1 = Inr [randomStringChars ! (unat b mod 65)]"
  using RandomString_success[of 1 rt "[b]"] assms by simp

lemma residues:
  assumes "i < (65::nat)"
  shows "{n. n < 256 \<and> n mod 65 = i}
           = (if i < 61 then {i, i + 65, i + 130, i + 195} else {i, i + 65, i + 130})"
proof -
  have "n < 256 \<and> n mod 65 = i \<longleftrightarrow>
          n = i \<or> n = i + 65 \<or> n = i + 130 \<or> (n = i + 195 \<and> i < 61)" for n
  proof
    assume h: "n < 256 \<and> n mod 65 = i"
    have dm: "n = 65 * (n div 65) + i" using h by (metis mult_div_mod_eq)
    have "n div 65 < 4" using h by (simp add: div_less_iff_less_mult)
    then consider "n div 65 = 0" | "n div 65 = 1" | "n div 65 = 2" | "n div 65 = 3" by linarith
    then show "n = i \<or> n = i + 65 \<or> n = i + 130 \<or> (n = i + 195 \<and> i < 61)"
      using dm h by cases simp_all
  next
    assume "n = i \<or> n = i + 65 \<or> n = i + 130 \<or> (n = i + 195 \<and> i < 61)"
    moreover have "(i + 65 * k) mod 65 = i" for k using assms by simp
    from this[of 1] this[of 2] this[of 3]
    have "(i + 65) mod 65 = i" "(i + 130) mod 65 = i" "(i + 195) mod 65 = i" by simp_all
    ultimately show "n < 256 \<and> n mod 65 = i" using assms by auto
  qed
  then show ?thesis by auto
qed

lemma card_residues:
  assumes "i < (65::nat)"
  shows "card {n. n < 256 \<and> n mod 65 = i} = (if i < 61 then 4 else 3)"
  unfolding residues[OF assms] by simp

lemma unat_image: "unat ` {b :: u8. unat b mod 65 = i} = {n. n < 256 \<and> n mod 65 = i}"
proof (intro set_eqI iffI)
  fix n assume "n \<in> unat ` {b :: u8. unat b mod 65 = i}"
  then obtain b :: u8 where "n = unat b" "unat b mod 65 = i" by auto
  moreover have "unat b < 256" using unsigned_less[of b, where ?'a = nat] by simp
  ultimately show "n \<in> {n. n < 256 \<and> n mod 65 = i}" by simp
next
  fix n assume "n \<in> {n. n < 256 \<and> n mod 65 = i}"
  then have n: "n < 256" "n mod 65 = i" by auto
  then have "unat (of_nat n :: u8) = n" by (simp add: unat_of_nat)
  with n show "n \<in> unat ` {b :: u8. unat b mod 65 = i}"
    by (intro image_eqI[where x = "of_nat n"]) auto
qed

lemma card_bytes:
  assumes "i < (65::nat)"
  shows "card {b :: u8. unat b mod 65 = i} = (if i < 61 then 4 else 3)"
proof -
  have "card (unat ` {b :: u8. unat b mod 65 = i}) = card {b :: u8. unat b mod 65 = i}"
    by (rule card_image) (simp add: inj_on_def word_unat_eq_iff)
  then show ?thesis using card_residues[OF assms] by (simp add: unat_image)
qed

lemma chosen_iff:
  assumes "i < 65" "1 \<le> maxAlloc rt" "1 \<le> memory rt"
  shows "RandomString rt [b] 1 = Inr [randomStringChars ! i] \<longleftrightarrow> unat b mod 65 = i"
proof -
  have "unat b mod 65 < length randomStringChars" by (simp add: length_randomStringChars)
  moreover have "i < length randomStringChars" using assms by (simp add: length_randomStringChars)
  ultimately show ?thesis
    using distinct_randomStringChars assms(2,3)
    by (simp add: RandomString_single nth_eq_iff_index_eq)
qed

lemma all_bytes_distinct: "distinct all_bytes"
proof -
  have "inj_on (of_nat :: nat \<Rightarrow> u8) {0..<256}"
  proof (rule inj_onI)
    fix x y :: nat assume "x \<in> {0..<256}" "y \<in> {0..<256}" "(of_nat x :: u8) = of_nat y"
    then have "unat (of_nat x :: u8) = unat (of_nat y :: u8)" "x < 256" "y < 256" by simp_all
    then show "x = y" by (simp add: unat_of_nat)
  qed
  then show ?thesis by (simp add: all_bytes_def distinct_map)
qed

lemma all_bytes_UNIV: "set all_bytes = UNIV"
proof -
  have "b \<in> set all_bytes" for b :: u8
  proof -
    have "unat b < 256" using unsigned_less[of b, where ?'a = nat] by simp
    moreover have "of_nat (unat b) = b" by simp
    ultimately show ?thesis unfolding all_bytes_def
      by (metis (no_types) atLeastLessThan_iff image_eqI list.set_map set_upt zero_le)
  qed
  then show ?thesis by auto
qed

lemma chosen_by_index:
  assumes "i < 65" "1 \<le> maxAlloc rt" "1 \<le> memory rt"
  shows "chosen_by rt (randomStringChars ! i) = (if i < 61 then 4 else 3)"
proof -
  have "chosen_by rt (randomStringChars ! i)
          = card ({b. RandomString rt [b] 1 = Inr [randomStringChars ! i]} \<inter> set all_bytes)"
    unfolding chosen_by_def using all_bytes_distinct by (rule distinct_length_filter)
  also have "\<dots> = card {b :: u8. unat b mod 65 = i}"
    by (simp add: all_bytes_UNIV chosen_iff[OF assms])
  finally show ?thesis using card_bytes[OF assms(1)] by simp
qed

lemma test_runtime_room: "1 \<le> maxAlloc test_runtime" "1 \<le> memory test_runtime"
  by (simp_all add: test_runtime_def)

text \<open>
  C2. For every non-negative length \<open>n\<close> that the runtime can allocate and for which the
  random source delivers \<open>n\<close> bytes, \<^verbatim>\<open>RandomString\<close> returns a string of length exactly
  \<open>n\<close> whose every character belongs to the alphabet, and whose \<open>k\<close>-th character is the
  alphabet's character at the index of the \<open>k\<close>-th random byte modulo 65; with fewer
  random bytes the process ends, and a negative length or one above the allocation limit
  panics. The alphabet has 65 characters. Of the 256 byte values, four choose each of the
  first 61 characters and three choose each of the last four.
\<close>

theorem RandomString_alphabet:
  "(0 \<le> n \<and> n \<le> int (maxAlloc rt) \<and> n \<le> int (memory rt) \<and> nat n \<le> length source \<longrightarrow>
      (\<exists>str. RandomString rt source n = Inr str \<and>
             length str = nat n \<and>
             set str \<subseteq> set randomStringChars \<and>
             (\<forall>k < nat n. str ! k = randomStringChars ! (unat (source ! k) mod 65)))) \<and>
   (0 \<le> n \<and> n \<le> int (maxAlloc rt) \<and> n \<le> int (memory rt) \<and> length source < nat n \<longrightarrow>
      RandomString rt source n = Inl (Fatal ''unable to generate a random secret'')) \<and>
   (n < 0 \<or> int (maxAlloc rt) < n \<longrightarrow>
      RandomString rt source n = Inl (Panic ''runtime error: makeslice: len out of range'')) \<and>
   (0 \<le> n \<and> n \<le> int (maxAlloc rt) \<and> int (memory rt) < n \<longrightarrow>
      RandomString rt source n = Inl (Throw ''runtime: out of memory'')) \<and>
   card (set randomStringChars) = 65 \<and>
   (\<forall>i < 65. 1 \<le> maxAlloc rt \<and> 1 \<le> memory rt \<longrightarrow>
      chosen_by rt (randomStringChars ! i) = (if i < 61 then 4 else 3))"
proof (intro conjI impI allI)
  assume h: "0 \<le> n \<and> n \<le> int (maxAlloc rt) \<and> n \<le> int (memory rt) \<and> nat n \<le> length source"
  let ?str = "map (\<lambda>b. randomStringChars ! (unat b mod 65)) (take (nat n) source)"
  have "RandomString rt source n = Inr ?str"
    using h by (simp add: RandomString_success)
  moreover have "length ?str = nat n" using h by simp
  moreover have "set ?str \<subseteq> set randomStringChars"
  proof -
    have "randomStringChars ! (unat b mod 65) \<in> set randomStringChars" for b :: u8
      by (rule nth_mem) (simp add: length_randomStringChars)
    then show ?thesis by auto
  qed
  moreover have "\<forall>k < nat n. ?str ! k = randomStringChars ! (unat (source ! k) mod 65)"
    using h by simp
  ultimately show "\<exists>str. RandomString rt source n = Inr str \<and>
             length str = nat n \<and>
             set str \<subseteq> set randomStringChars \<and>
             (\<forall>k < nat n. str ! k = randomStringChars ! (unat (source ! k) mod 65))"
    by blast
next
  assume "0 \<le> n \<and> n \<le> int (maxAlloc rt) \<and> n \<le> int (memory rt) \<and> length source < nat n"
  then show "RandomString rt source n = Inl (Fatal ''unable to generate a random secret'')"
    by (simp add: RandomString_fatal)
next
  assume "n < 0 \<or> int (maxAlloc rt) < n"
  then show "RandomString rt source n = Inl (Panic ''runtime error: makeslice: len out of range'')"
    by (rule RandomString_panic)
next
  assume "0 \<le> n \<and> n \<le> int (maxAlloc rt) \<and> int (memory rt) < n"
  then show "RandomString rt source n = Inl (Throw ''runtime: out of memory'')"
    by (simp add: RandomString_throw)
next
  show "card (set randomStringChars) = 65" by (rule card_randomStringChars)
next
  fix i :: nat assume "i < 65" "1 \<le> maxAlloc rt \<and> 1 \<le> memory rt"
  then show "chosen_by rt (randomStringChars ! i) = (if i < 61 then 4 else 3)"
    by (simp add: chosen_by_index)
qed

theorem RandomString_alphabet_witness:
  "RandomString test_runtime [0, 64, 65, 255, 7] 4 = Inr ''0-0Y'' \<and>
   RandomString test_runtime [0, 64] 4 = Inl (Fatal ''unable to generate a random secret'') \<and>
   RandomString test_runtime [0, 64] (2 ^ 62)
     = Inl (Panic ''runtime error: makeslice: len out of range'') \<and>
   chosen_by test_runtime (CHR ''0'') = 4 \<and> chosen_by test_runtime (CHR ''-'') = 3"
proof -
  note fact = RandomString_alphabet[of 4 test_runtime "[0, 64, 65, 255, 7]"]
  note fact2 = RandomString_alphabet[of 4 test_runtime "[0, 64]"]
  note fact3 = RandomString_alphabet[of "2 ^ 62" test_runtime "[0, 64]"]
  have h: "(0::int) \<le> 4 \<and> 4 \<le> int (maxAlloc test_runtime) \<and> 4 \<le> int (memory test_runtime) \<and>
           nat 4 \<le> length [0 :: u8, 64, 65, 255, 7]"
    by (simp add: test_runtime_def)
  have h2: "(0::int) \<le> 4 \<and> 4 \<le> int (maxAlloc test_runtime) \<and> 4 \<le> int (memory test_runtime) \<and>
            length [0 :: u8, 64] < nat 4"
    by (simp add: test_runtime_def)
  have h3: "(2 ^ 62 :: int) < 0 \<or> int (maxAlloc test_runtime) < 2 ^ 62"
    by (simp add: test_runtime_def)
  from fact[THEN conjunct1, rule_format, OF h] obtain str where
    str: "RandomString test_runtime [0, 64, 65, 255, 7] 4 = Inr str" "length str = nat 4"
      "\<forall>k < nat 4. str ! k = randomStringChars ! (unat ([0 :: u8, 64, 65, 255, 7] ! k) mod 65)"
    by blast
  have "str ! 0 = CHR ''0''" "str ! 1 = CHR ''-''" "str ! 2 = CHR ''0''" "str ! 3 = CHR ''Y''"
    using str(3) by (simp_all add: randomStringChars_def)
  then have "str = ''0-0Y''"
    using str(2) by (intro nth_equalityI) (auto simp: less_Suc_eq numeral_eq_Suc)
  then have a: "RandomString test_runtime [0, 64, 65, 255, 7] 4 = Inr ''0-0Y''"
    using str(1) by simp
  have b: "RandomString test_runtime [0, 64] 4 = Inl (Fatal ''unable to generate a random secret'')"
    using fact2[THEN conjunct2, THEN conjunct1, rule_format, OF h2] .
  have p: "RandomString test_runtime [0, 64] (2 ^ 62)
             = Inl (Panic ''runtime error: makeslice: len out of range'')"
    using fact3[THEN conjunct2, THEN conjunct2, THEN conjunct1, rule_format, OF h3] .
  note counts = fact[THEN conjunct2, THEN conjunct2, THEN conjunct2, THEN conjunct2,
      THEN conjunct2, rule_format]
  have room: "1 \<le> maxAlloc test_runtime \<and> 1 \<le> memory test_runtime"
    using test_runtime_room by simp
  have c: "chosen_by test_runtime (CHR ''0'') = 4"
    using counts[of 0, OF _ room] by (simp add: randomStringChars_def)
  have d: "chosen_by test_runtime (CHR ''-'') = 3"
    using counts[of 64, OF _ room] by (simp add: randomStringChars_def)
  from a b p c d show ?thesis by (intro conjI)
qed

text \<open>
  The alphabet does not have 70 characters, and the draw is not uniform: more byte
  values choose \<open>0\<close> than choose \<open>-\<close>.
\<close>

theorem RandomString_alphabet_counterexample:
  "card (set randomStringChars) \<noteq> 70 \<and>
   chosen_by test_runtime (CHR ''0'') \<noteq> chosen_by test_runtime (CHR ''-'')"
proof -
  have "chosen_by test_runtime (CHR ''0'') = 4"
    using chosen_by_index[of 0 test_runtime] test_runtime_room
    by (simp add: randomStringChars_def)
  moreover have "chosen_by test_runtime (CHR ''-'') = 3"
    using chosen_by_index[of 64 test_runtime] test_runtime_room
    by (simp add: randomStringChars_def)
  ultimately show ?thesis by (simp add: card_randomStringChars)
qed


section \<open>The successful bootstrap, event by event\<close>

lemma ca_events_success_list:
  assumes "ca_result ev caFile t priv = Inr x"
  shows "\<exists>der. env_CreateCertificate ev t t (rsa_Public priv) priv = Inr der \<and>
           env_ParseCertificate ev der = Inr (fst x) \<and> snd x = priv \<and>
           ca_events ev caFile t priv =
             [EvCreateCertificate t t (rsa_Public priv) priv,
              EvCreate caFile None,
              EvEncode caFile \<lparr> Type = ''CERTIFICATE'', Bytes = der \<rparr> None,
              EvClose caFile]"
  using assms
  by (auto simp: ca_events_def ca_result_def split: sum.splits option.splits)

lemma leaf_events_success_list:
  assumes "leaf_result ev certFile keyFile t p key pk = None"
  shows "\<exists>der. env_CreateCertificate ev t p (rsa_Public key) pk = Inr der \<and>
           leaf_events ev certFile keyFile t p key pk =
             [EvCreateCertificate t p (rsa_Public key) pk,
              EvCreate certFile None,
              EvEncode certFile \<lparr> Type = ''CERTIFICATE'', Bytes = der \<rparr>
                (env_Encode ev certFile \<lparr> Type = ''CERTIFICATE'', Bytes = der \<rparr>),
              EvClose certFile,
              EvOpenFile keyFile [O_WRONLY, O_CREATE, O_TRUNC] perm_0600 None,
              EvEncode keyFile
                \<lparr> Type = ''RSA PRIVATE KEY'', Bytes = env_MarshalPKCS1PrivateKey ev key \<rparr>
                (env_Encode ev keyFile
                   \<lparr> Type = ''RSA PRIVATE KEY'', Bytes = env_MarshalPKCS1PrivateKey ev key \<rparr>),
              EvClose keyFile]"
  using assms
  by (auto simp: leaf_events_def leaf_result_def key_events_def split: sum.splits option.splits)

lemma generateCA_draws:
  assumes "generateCA ev caFile v s = (Inr (Inr x), s')"
  shows "rand_draws s' = rand_draws s + 2"
proof -
  obtain a s1 where nc: "newCertificate ev v s = (a, s1)" by (cases "newCertificate ev v s")
  obtain b s2 where pk: "newPrivateKey ev s1 = (b, s2)" by (cases "newPrivateKey ev s1")
  have "rand_draws s2 = Suc (rand_draws s1)"
    using pk by (auto simp: newPrivateKey_def rsa_GenerateKey_def)
  moreover have "rand_draws s' = rand_draws s2"
    using assms nc pk
    by (auto simp: generateCA_def Let_def x509_CreateCertificate_def os_Create_def pem_Encode_def
        file_Close_def emit_def split: sum.splits option.splits)
  ultimately show ?thesis using newCertificate_counters[OF nc] by simp
qed

lemma GeneratePKI_success:
  assumes "GeneratePKI ev host s = (Inr (), s')"
  defines "directory \<equiv> AssetPath ev ''certs''"
  defines "caFile \<equiv> env_Join ev directory ''zarf-ca.pem''"
  defines "hostCert \<equiv> env_Join ev directory ''zarf-server.crt''"
  defines "hostKey \<equiv> env_Join ev directory ''zarf-server.key''"
  shows "\<exists>u t0 u1 v t1 v1 ca caKey leafKey.
           rand_draws u = rand_draws s \<and> clock_reads u = clock_reads s \<and>
           newCertificate ev validFor u = (Inr t0, u1) \<and>
           env_GenerateKey ev (Suc (rand_draws s)) rsaBits = Inr caKey \<and>
           ca_result ev caFile (ca_template t0) caKey = Inr (ca, caKey) \<and>
           rand_draws v = rand_draws s + 2 \<and> clock_reads v = Suc (clock_reads s) \<and>
           newCertificate ev validFor v = (Inr t1, v1) \<and>
           env_GenerateKey ev (rand_draws s + 3) rsaBits = Inr leafKey \<and>
           leaf_result ev hostCert hostKey (host_template ev host t1) ca leafKey caKey = None \<and>
           emitted s s' =
             EvCreateDirectory directory perm_0700 #
             ca_events ev caFile (ca_template t0) caKey @
             leaf_events ev hostCert hostKey (host_template ev host t1) ca leafKey caKey @
             pki_tail ev directory caFile ca"
proof -
  let ?s0 = "emit (EvCreateDirectory directory perm_0700) s"
  have s0: "trace ?s0 = trace s @ [EvCreateDirectory directory perm_0700]"
    "clock_reads ?s0 = clock_reads s" "rand_draws ?s0 = rand_draws s"
    by (simp_all add: emit_def)
  from GeneratePKI_trace[OF assms(1)] obtain s1 ca caKey s2 where
    gca: "generateCA ev caFile validFor ?s0 = (Inr (Inr (ca, caKey)), s1)"
    and gc: "generateCert ev host hostCert hostKey ca caKey validFor s1 = (Inr None, s2)"
    and tail: "trace s' = trace s2 @ pki_tail ev directory caFile ca"
    unfolding directory_def caFile_def hostCert_def hostKey_def by fastforce
  from generateCA_trace[OF gca] obtain t0 u1 priv u2 where
    nc0: "newCertificate ev validFor ?s0 = (Inr t0, u1)"
    and pk0: "newPrivateKey ev u1 = (Inr priv, u2)"
    and cr: "ca_result ev caFile (ca_template t0) priv = Inr (ca, caKey)"
    and tr1: "trace s1 = trace ?s0 @ ca_events ev caFile (ca_template t0) priv"
    by auto
  have priv: "priv = caKey" using ca_result_Inr[OF cr] by simp
  have key0: "env_GenerateKey ev (Suc (rand_draws s)) rsaBits = Inr caKey"
    using newPrivateKey_result[OF pk0] newCertificate_counters[OF nc0] s0(3) priv by simp
  have d1: "rand_draws s1 = rand_draws s + 2" using generateCA_draws[OF gca] s0(3) by simp
  have c1: "clock_reads s1 = Suc (clock_reads s)" using generateCA_clock[OF gca] s0(2) by simp
  from generateCert_trace[OF gc] obtain t1 v1 leafKey v2 r' where
    nc1: "newCertificate ev validFor s1 = (Inr t1, v1)"
    and pk1: "newPrivateKey ev v1 = (Inr leafKey, v2)"
    and gft: "generateFromTemplate ev hostCert hostKey (host_template ev host t1) ca leafKey caKey v2
                = (r', s2)"
    and r': "Inr None = (Inr r' :: failure + error option)"
    and tr2: "trace s2 = trace s1 @
                leaf_events ev hostCert hostKey (host_template ev host t1) ca leafKey caKey"
    by auto
  have key1: "env_GenerateKey ev (rand_draws s + 3) rsaBits = Inr leafKey"
    using newPrivateKey_result[OF pk1] newCertificate_counters[OF nc1] d1
    by (simp add: numeral_3_eq_3)
  have lr: "leaf_result ev hostCert hostKey (host_template ev host t1) ca leafKey caKey = None"
    using generateFromTemplate_trace[OF gft] r' by (simp add: leaf_result_def)
  have em: "emitted s s' =
             EvCreateDirectory directory perm_0700 #
             ca_events ev caFile (ca_template t0) caKey @
             leaf_events ev hostCert hostKey (host_template ev host t1) ca leafKey caKey @
             pki_tail ev directory caFile ca"
    using tail tr2 tr1 s0(1) priv by (simp add: emitted_def)
  from s0(2,3) nc0 key0 cr[unfolded priv] d1 c1 nc1 key1 lr em show ?thesis by blast
qed

section \<open>The file system after a run\<close>

lemma mask_perm_no_group_other:
  assumes "p AND q = 0"
  shows "mask_perm um p AND q = 0"
proof -
  let ?x = "int p AND NOT (int um)"
  have nonneg: "0 \<le> ?x" by simp
  have "int (nat ?x AND q) = ?x AND int q"
    using nonneg by (simp add: of_nat_and_eq)
  also have "\<dots> = (int p AND int q) AND NOT (int um)"
    by (simp add: and.assoc and.commute and.left_commute)
  also have "int p AND int q = int (p AND q)" by (simp add: of_nat_and_eq)
  finally have "int (nat ?x AND q) = 0" using assms by simp
  then show ?thesis by (simp add: mask_perm_def)
qed

lemma mask_perm_0600: "mask_perm um perm_0600 AND perm_group_other = 0"
  by (rule mask_perm_no_group_other) (simp add: perm_values perm_bits)

lemma files_after_append:
  "files_after um fs (xs @ ys) = files_after um (files_after um fs xs) ys"
  by (induction xs arbitrary: fs) simp_all

lemma fs_step_frame:
  assumes "name \<notin> set (opened_files [e])" "name \<notin> fst ` set (encoded_blocks [e])"
  shows "fs_step um e fs name = fs name"
proof (cases e)
  case (EvCreate n r)
  then show ?thesis using assms by (cases r) (auto simp: open_file_def split: option.splits)
next
  case (EvOpenFile n fl p r)
  then show ?thesis using assms by (cases r) (auto simp: open_file_def split: option.splits)
next
  case (EvEncode n b r)
  then show ?thesis using assms by (cases r) (auto split: option.splits)
qed simp_all

lemma opened_files_Cons: "opened_files (e # es) = opened_files [e] @ opened_files es"
  using opened_files_append[of "[e]" es] by simp

lemma encoded_blocks_Cons: "encoded_blocks (e # es) = encoded_blocks [e] @ encoded_blocks es"
  using encoded_blocks_append[of "[e]" es] by simp

lemma files_after_frame:
  assumes "name \<notin> set (opened_files es)" "name \<notin> fst ` set (encoded_blocks es)"
  shows "files_after um fs es name = fs name"
  using assms
proof (induction es arbitrary: fs)
  case Nil
  then show ?case by simp
next
  case (Cons e es)
  have e: "name \<notin> set (opened_files [e])" "name \<notin> fst ` set (encoded_blocks [e])"
    and es: "name \<notin> set (opened_files es)" "name \<notin> fst ` set (encoded_blocks es)"
    using Cons.prems opened_files_Cons[of e es] encoded_blocks_Cons[of e es] by auto
  have "files_after um fs (e # es) name = files_after um (fs_step um e fs) es name" by simp
  also have "\<dots> = fs_step um e fs name" using es by (rule Cons.IH)
  also have "\<dots> = fs name" using e by (rule fs_step_frame)
  finally show ?case .
qed

lemma files_after_key_events:
  assumes "env_OpenFile ev keyFile = None"
  shows "files_after um fs (key_events ev key keyFile) keyFile =
           Some \<lparr> file_mode = (case fs keyFile of None \<Rightarrow> mask_perm um perm_0600
                                 | Some f0 \<Rightarrow> file_mode f0),
                  file_blocks =
                    (if env_Encode ev keyFile
                          \<lparr> Type = ''RSA PRIVATE KEY'', Bytes = env_MarshalPKCS1PrivateKey ev key \<rparr>
                        = None
                     then [\<lparr> Type = ''RSA PRIVATE KEY'',
                             Bytes = env_MarshalPKCS1PrivateKey ev key \<rparr>]
                     else []) \<rparr>"
  using assms
  by (cases "env_Encode ev keyFile
                \<lparr> Type = ''RSA PRIVATE KEY'', Bytes = env_MarshalPKCS1PrivateKey ev key \<rparr>")
     (auto simp: key_events_def open_file_def split: option.splits)

lemma files_after_key_events_failed:
  assumes "env_OpenFile ev keyFile = Some err"
  shows "files_after um fs (key_events ev key keyFile) = fs"
  using assms by (simp add: key_events_def)

lemma key_events_frame:
  assumes "name \<noteq> keyFile"
  shows "files_after um fs (key_events ev key keyFile) name = fs name"
  using assms
  by (intro files_after_frame) (auto simp: key_events_observed split: option.splits)

lemma leaf_events_split:
  assumes "leaf_result ev certFile keyFile t p key pk = None"
  shows "env_OpenFile ev keyFile = None \<and>
         (\<exists>pre. leaf_events ev certFile keyFile t p key pk = pre @ key_events ev key keyFile \<and>
            opened_files pre = [certFile] \<and> fst ` set (encoded_blocks pre) \<subseteq> {certFile})"
proof -
  from assms obtain der where
    der: "env_CreateCertificate ev t p (rsa_Public key) pk = Inr der"
    and cr: "env_Create ev certFile = None" and op: "env_OpenFile ev keyFile = None"
    by (auto simp: leaf_result_def split: sum.splits option.splits)
  let ?pre = "[EvCreateCertificate t p (rsa_Public key) pk, EvCreate certFile None,
               EvEncode certFile \<lparr> Type = ''CERTIFICATE'', Bytes = der \<rparr>
                 (env_Encode ev certFile \<lparr> Type = ''CERTIFICATE'', Bytes = der \<rparr>),
               EvClose certFile]"
  have "leaf_events ev certFile keyFile t p key pk = ?pre @ key_events ev key keyFile"
    using der cr by (simp add: leaf_events_def)
  moreover have "opened_files ?pre = [certFile]" by simp
  moreover have "fst ` set (encoded_blocks ?pre) \<subseteq> {certFile}" by simp
  ultimately show ?thesis using op by blast
qed

lemma ca_events_frame:
  assumes "name \<noteq> caFile"
  shows "files_after um fs (ca_events ev caFile t priv) name = fs name"
proof (rule files_after_frame)
  show "name \<notin> set (opened_files (ca_events ev caFile t priv))"
    using ca_events_observed(2)[of ev caFile t priv] assms by auto
  show "name \<notin> fst ` set (encoded_blocks (ca_events ev caFile t priv))"
    using assms by (auto dest: ca_events_encoded)
qed

lemma pki_tail_frame: "files_after um fs (pki_tail ev directory caFile ca) name = fs name"
  by (rule files_after_frame) simp_all

lemma GeneratePKI_key_file:
  assumes "GeneratePKI ev host s = (Inr (), s')"
    and "fs (env_Join ev (AssetPath ev ''certs'') ''zarf-server.key'') = None"
    and "env_Join ev (AssetPath ev ''certs'') ''zarf-server.key''
           \<noteq> env_Join ev (AssetPath ev ''certs'') ''zarf-ca.pem''"
    and "env_Join ev (AssetPath ev ''certs'') ''zarf-server.key''
           \<noteq> env_Join ev (AssetPath ev ''certs'') ''zarf-server.crt''"
  shows "\<exists>f. files_after um fs (emitted s s')
                (env_Join ev (AssetPath ev ''certs'') ''zarf-server.key'') = Some f \<and>
             file_mode f = mask_perm um perm_0600"
proof -
  let ?dir = "AssetPath ev ''certs''"
  let ?caFile = "env_Join ev ?dir ''zarf-ca.pem''"
  let ?hostCert = "env_Join ev ?dir ''zarf-server.crt''"
  let ?hostKey = "env_Join ev ?dir ''zarf-server.key''"
  from GeneratePKI_success[OF assms(1)] obtain t0 t1 ca caKey leafKey where
    lr: "leaf_result ev ?hostCert ?hostKey (host_template ev host t1) ca leafKey caKey = None"
    and em: "emitted s s' =
             EvCreateDirectory ?dir perm_0700 #
             ca_events ev ?caFile (ca_template t0) caKey @
             leaf_events ev ?hostCert ?hostKey (host_template ev host t1) ca leafKey caKey @
             pki_tail ev ?dir ?caFile ca"
    by blast
  from leaf_events_split[OF lr] obtain pre where
    op: "env_OpenFile ev ?hostKey = None"
    and le: "leaf_events ev ?hostCert ?hostKey (host_template ev host t1) ca leafKey caKey
               = pre @ key_events ev leafKey ?hostKey"
    and pre: "opened_files pre = [?hostCert]" "fst ` set (encoded_blocks pre) \<subseteq> {?hostCert}"
    by blast
  let ?fs1 = "files_after um fs (ca_events ev ?caFile (ca_template t0) caKey)"
  let ?fs2 = "files_after um ?fs1 pre"
  let ?fs3 = "files_after um ?fs2 (key_events ev leafKey ?hostKey)"
  have run: "files_after um fs (emitted s s') = files_after um ?fs3 (pki_tail ev ?dir ?caFile ca)"
    unfolding em le by (simp add: files_after_append)
  have "?fs1 ?hostKey = None" using ca_events_frame[OF assms(3)] assms(2) by simp
  moreover have "?fs2 ?hostKey = ?fs1 ?hostKey"
    using pre assms(4) by (intro files_after_frame) auto
  ultimately have "?fs2 ?hostKey = None" by simp
  then have "\<exists>f. ?fs3 ?hostKey = Some f \<and> file_mode f = mask_perm um perm_0600"
    using files_after_key_events[OF op, of um ?fs2 leafKey] by simp
  then show ?thesis using run by (simp add: pki_tail_frame)
qed

section \<open>Permissions of the key file and of the directory\<close>

lemma test_savePrivateKey_trace:
  "trace (snd (savePrivateKey test_env (test_key 0) ''server.key'' init_state)) =
     [EvOpenFile ''server.key'' [O_WRONLY, O_CREATE, O_TRUNC] perm_0600 None,
      EvEncode ''server.key'' \<lparr> Type = ''RSA PRIVATE KEY'', Bytes = [48, 193] \<rparr> None,
      EvClose ''server.key'']"
  by (simp add: run_defs test_key_def)

text \<open>
  C8. \<^verbatim>\<open>savePrivateKey\<close> opens the key file, and only it, with
  \<^verbatim>\<open>O_WRONLY|O_CREATE|O_TRUNC\<close> and permission \<^verbatim>\<open>0600\<close>, and encodes the private key
  to that file alone. When it returns \<^verbatim>\<open>nil\<close>, a key file that did not exist has been
  created with mode \<^verbatim>\<open>0600\<close> less the umask bits, which has no group or other bit, while
  a key file that existed keeps the mode it had; the file holds the key when the write
  succeeded, and no other file is changed. The first event of every run of
  \<^verbatim>\<open>GeneratePKI\<close> is the creation of the certificate directory, requested with
  permission \<^verbatim>\<open>0700\<close>; every \<^verbatim>\<open>os.OpenFile\<close> of the run is that of \<^verbatim>\<open>zarf-server.key\<close> in
  that directory with permission \<^verbatim>\<open>0600\<close>, every \<^verbatim>\<open>RSA PRIVATE KEY\<close> block goes to that
  file, and after a successful run that started without that file, its name being
  neither of the two certificate files' names, the file has mode \<^verbatim>\<open>0600\<close> less the umask
  bits.
\<close>

theorem key_file_and_directory_modes:
  assumes "savePrivateKey ev key keyFile s = (r, s')"
    and "GeneratePKI ev2 host u = (q, u')"
  shows "openfile_calls (emitted s s') = [(keyFile, [O_WRONLY, O_CREATE, O_TRUNC], perm_0600)] \<and>
         perm_0600 = 6 * 64 \<and> perm_0700 = 7 * 64 \<and> perm_group_other = 7 * 8 + 7 \<and>
         perm_0600 AND perm_group_other = 0 \<and>
         perm_0700 AND perm_group_other = 0 \<and>
         (\<forall>(name, b) \<in> set (encoded_blocks (emitted s s')).
            name = keyFile \<and>
            b = \<lparr> Type = ''RSA PRIVATE KEY'', Bytes = env_MarshalPKCS1PrivateKey ev key \<rparr>) \<and>
         (r = None \<longrightarrow> encoded_blocks (emitted s s') \<noteq> []) \<and>
         (r = None \<and> fs keyFile = None \<longrightarrow>
            (\<exists>f. files_after um fs (emitted s s') keyFile = Some f \<and>
                 file_mode f = mask_perm um perm_0600 \<and>
                 file_mode f AND perm_group_other = 0)) \<and>
         (\<forall>f0. r = None \<and> fs keyFile = Some f0 \<longrightarrow>
            (\<exists>f. files_after um fs (emitted s s') keyFile = Some f \<and>
                 file_mode f = file_mode f0)) \<and>
         (r = None \<and>
          env_Encode ev keyFile
            \<lparr> Type = ''RSA PRIVATE KEY'', Bytes = env_MarshalPKCS1PrivateKey ev key \<rparr> = None \<longrightarrow>
            (\<exists>f. files_after um fs (emitted s s') keyFile = Some f \<and>
                 file_blocks f =
                   [\<lparr> Type = ''RSA PRIVATE KEY'', Bytes = env_MarshalPKCS1PrivateKey ev key \<rparr>])) \<and>
         (\<forall>name. name \<noteq> keyFile \<longrightarrow> files_after um fs (emitted s s') name = fs name) \<and>
         (r \<noteq> None \<longrightarrow> files_after um fs (emitted s s') = fs) \<and>
         (\<exists>rest. emitted u u' = EvCreateDirectory (AssetPath ev2 ''certs'') perm_0700 # rest) \<and>
         (\<forall>c \<in> set (openfile_calls (emitted u u')).
            c = (env_Join ev2 (AssetPath ev2 ''certs'') ''zarf-server.key'',
                 [O_WRONLY, O_CREATE, O_TRUNC], perm_0600)) \<and>
         (\<forall>(name, b) \<in> set (encoded_blocks (emitted u u')).
            Type b = ''RSA PRIVATE KEY'' \<longrightarrow>
            name = env_Join ev2 (AssetPath ev2 ''certs'') ''zarf-server.key'') \<and>
         (q = Inr () \<longrightarrow>
            openfile_calls (emitted u u') =
              [(env_Join ev2 (AssetPath ev2 ''certs'') ''zarf-server.key'',
                [O_WRONLY, O_CREATE, O_TRUNC], perm_0600)]) \<and>
         (q = Inr () \<and>
          fs2 (env_Join ev2 (AssetPath ev2 ''certs'') ''zarf-server.key'') = None \<and>
          env_Join ev2 (AssetPath ev2 ''certs'') ''zarf-server.key''
            \<noteq> env_Join ev2 (AssetPath ev2 ''certs'') ''zarf-ca.pem'' \<and>
          env_Join ev2 (AssetPath ev2 ''certs'') ''zarf-server.key''
            \<noteq> env_Join ev2 (AssetPath ev2 ''certs'') ''zarf-server.crt'' \<longrightarrow>
            (\<exists>f. files_after um2 fs2 (emitted u u')
                   (env_Join ev2 (AssetPath ev2 ''certs'') ''zarf-server.key'') = Some f \<and>
                 file_mode f = mask_perm um2 perm_0600 \<and>
                 file_mode f AND perm_group_other = 0))"
proof -
  let ?caFile = "env_Join ev2 (AssetPath ev2 ''certs'') ''zarf-ca.pem''"
  let ?hostCert = "env_Join ev2 (AssetPath ev2 ''certs'') ''zarf-server.crt''"
  let ?hostKey = "env_Join ev2 (AssetPath ev2 ''certs'') ''zarf-server.key''"
  let ?call = "(?hostKey, [O_WRONLY, O_CREATE, O_TRUNC], perm_0600)"
  let ?kb = "\<lparr> Type = ''RSA PRIVATE KEY'', Bytes = env_MarshalPKCS1PrivateKey ev key \<rparr>"
  have em1: "emitted s s' = key_events ev key keyFile" and r: "r = env_OpenFile ev keyFile"
    using savePrivateKey_trace[OF assms(1)] by (simp_all add: emitted_def)
  have a: "openfile_calls (emitted s s') = [(keyFile, [O_WRONLY, O_CREATE, O_TRUNC], perm_0600)]"
    using em1 by (simp add: key_events_observed)
  have p: "perm_0600 = 6 * 64" "perm_0700 = 7 * 64" "perm_group_other = 7 * 8 + 7"
    by (simp_all add: perm_values)
  have b: "\<forall>(name, b) \<in> set (encoded_blocks (emitted s s')). name = keyFile \<and> b = ?kb"
    using em1 by (simp add: key_events_observed split: option.splits)
  have c: "r = None \<longrightarrow> encoded_blocks (emitted s s') \<noteq> []"
    using em1 r by (simp add: key_events_observed split: option.splits)
  have d: "perm_0600 AND perm_group_other = 0" "perm_0700 AND perm_group_other = 0"
    by (simp_all add: perm_values perm_bits)
  have m1: "r = None \<and> fs keyFile = None \<longrightarrow>
            (\<exists>f. files_after um fs (emitted s s') keyFile = Some f \<and>
                 file_mode f = mask_perm um perm_0600 \<and>
                 file_mode f AND perm_group_other = 0)"
    using files_after_key_events[of ev keyFile um fs key] r em1 mask_perm_0600[of um] by simp
  have m2: "\<forall>f0. r = None \<and> fs keyFile = Some f0 \<longrightarrow>
            (\<exists>f. files_after um fs (emitted s s') keyFile = Some f \<and>
                 file_mode f = file_mode f0)"
    using files_after_key_events[of ev keyFile um fs key] r em1 by simp
  have m3: "r = None \<and> env_Encode ev keyFile ?kb = None \<longrightarrow>
            (\<exists>f. files_after um fs (emitted s s') keyFile = Some f \<and> file_blocks f = [?kb])"
    using files_after_key_events[of ev keyFile um fs key] r em1 by simp
  have m4: "\<forall>name. name \<noteq> keyFile \<longrightarrow> files_after um fs (emitted s s') name = fs name"
    using key_events_frame[of _ keyFile um fs ev key] em1 by simp
  have m5: "r \<noteq> None \<longrightarrow> files_after um fs (emitted s s') = fs"
    using files_after_key_events_failed[of ev keyFile _ um fs key] r em1 by auto
  from GeneratePKI_emitted[OF assms(2)] obtain A B C where
    em: "emitted u u' = EvCreateDirectory (AssetPath ev2 ''certs'') perm_0700 # A @ B @ C"
    and C: "encoded_blocks C = []" "openfile_calls C = []"
    and AB: "A = [] \<and> B = [] \<and> q \<noteq> Inr () \<or>
       (\<exists>t0 priv. A = ca_events ev2 ?caFile (ca_template t0) priv \<and>
          (B = [] \<and> q \<noteq> Inr () \<or>
           (\<exists>t ca key caKey. B = leaf_events ev2 ?hostCert ?hostKey t ca key caKey \<and>
              (q = Inr () \<longrightarrow> leaf_result ev2 ?hostCert ?hostKey t ca key caKey = None))))"
    by blast
  have A1: "openfile_calls A = []"
    using AB by (auto simp: ca_events_observed)
  have Acases: "A = [] \<or> (\<exists>t0 priv. A = ca_events ev2 ?caFile t0 priv)"
    using AB by blast
  have A2: "\<forall>(name, b) \<in> set (encoded_blocks A). Type b \<noteq> ''RSA PRIVATE KEY''"
    using Acases by (auto dest: ca_events_encoded)
  have B1: "\<forall>c \<in> set (openfile_calls B). c = ?call"
    using AB leaf_events_observed(1) by fastforce
  have B2: "\<forall>(name, b) \<in> set (encoded_blocks B). Type b = ''RSA PRIVATE KEY'' \<longrightarrow> name = ?hostKey"
    using AB leaf_events_observed(2) by fastforce
  have B3: "q = Inr () \<longrightarrow> openfile_calls B = [?call]"
    using AB leaf_events_success(2) by (auto simp: leaf_result_def)
  have e: "\<exists>rest. emitted u u' = EvCreateDirectory (AssetPath ev2 ''certs'') perm_0700 # rest"
    using em by blast
  have f: "\<forall>c \<in> set (openfile_calls (emitted u u')). c = ?call"
    using em C A1 B1 by simp
  have g: "\<forall>(name, b) \<in> set (encoded_blocks (emitted u u')).
            Type b = ''RSA PRIVATE KEY'' \<longrightarrow> name = ?hostKey"
    using em C A2 B2 by auto
  have h: "q = Inr () \<longrightarrow> openfile_calls (emitted u u') = [?call]"
    using em C A1 B3 by simp
  have k: "q = Inr () \<and> fs2 ?hostKey = None \<and> ?hostKey \<noteq> ?caFile \<and> ?hostKey \<noteq> ?hostCert \<longrightarrow>
            (\<exists>f. files_after um2 fs2 (emitted u u') ?hostKey = Some f \<and>
                 file_mode f = mask_perm um2 perm_0600 \<and>
                 file_mode f AND perm_group_other = 0)"
  proof (intro impI, elim conjE)
    assume q: "q = Inr ()" and h: "fs2 ?hostKey = None" "?hostKey \<noteq> ?caFile" "?hostKey \<noteq> ?hostCert"
    have run: "GeneratePKI ev2 host u = (Inr (), u')" using assms(2) q by simp
    from GeneratePKI_key_file[where fs = fs2 and um = um2, OF run h] mask_perm_0600[of um2]
    show "\<exists>f. files_after um2 fs2 (emitted u u') ?hostKey = Some f \<and>
                 file_mode f = mask_perm um2 perm_0600 \<and>
                 file_mode f AND perm_group_other = 0" by auto
  qed
  show ?thesis
    using a p d b c m1 m2 m3 m4 m5 e f g h k by (intro conjI)
qed


lemma test_masks: "mask_perm umask_022 perm_0600 = 384" "perm_0644 = 420" "(420::nat) AND 63 = 36"
  by (simp_all add: mask_perm_def umask_022_def perm_values perm_0644_def)

lemma test_no_files:
  "no_files ''server.key'' = None" "no_files ''/opt/zarf/certs/zarf-server.key'' = None"
  by (simp_all add: no_files_def)

theorem key_file_and_directory_modes_witness:
  "fst (savePrivateKey test_env (test_key 0) ''server.key'' init_state) = None \<and>
   fst (GeneratePKI test_env ''example.org'' init_state) = Inr () \<and>
   openfile_calls (emitted init_state
     (snd (savePrivateKey test_env (test_key 0) ''server.key'' init_state)))
     = [(''server.key'', [O_WRONLY, O_CREATE, O_TRUNC], perm_0600)] \<and>
   map_option file_mode (files_after umask_022 no_files (emitted init_state
     (snd (savePrivateKey test_env (test_key 0) ''server.key'' init_state))) ''server.key'')
     = Some 384 \<and>
   openfile_calls (emitted init_state (snd (GeneratePKI test_env ''example.org'' init_state)))
     = [(''/opt/zarf/certs/zarf-server.key'', [O_WRONLY, O_CREATE, O_TRUNC], perm_0600)] \<and>
   map_option file_mode (files_after umask_022 no_files (emitted init_state
     (snd (GeneratePKI test_env ''example.org'' init_state))) ''/opt/zarf/certs/zarf-server.key'')
     = Some 384 \<and>
   hd (emitted init_state (snd (GeneratePKI test_env ''example.org'' init_state)))
     = EvCreateDirectory ''/opt/zarf/certs'' perm_0700"
proof -
  let ?save = "savePrivateKey test_env (test_key 0) ''server.key'' init_state"
  let ?run = "GeneratePKI test_env ''example.org'' init_state"
  have h1: "?save = (fst ?save, snd ?save)" by simp
  have h2: "?run = (fst ?run, snd ?run)" by simp
  note fact = key_file_and_directory_modes[OF h1 h2, where um = umask_022 and fs = no_files
      and ?um2.0 = umask_022 and ?fs2.0 = no_files]
  have a: "openfile_calls (emitted init_state (snd ?save))
             = [(''server.key'', [O_WRONLY, O_CREATE, O_TRUNC], perm_0600)]"
    using fact[THEN conjunct1] .
  have pre1: "fst ?save = None \<and> no_files ''server.key'' = None"
    using test_savePrivateKey test_no_files(1) by (rule conjI)
  obtain f where f: "files_after umask_022 no_files (emitted init_state (snd ?save)) ''server.key''
                       = Some f" "file_mode f = mask_perm umask_022 perm_0600"
    using fact[THEN conjunct2, THEN conjunct2, THEN conjunct2, THEN conjunct2, THEN conjunct2, THEN conjunct2, THEN conjunct2, THEN conjunct2, THEN conjunct1, THEN mp, OF pre1] by blast
  have b: "map_option file_mode
             (files_after umask_022 no_files (emitted init_state (snd ?save)) ''server.key'')
             = Some 384"
    using f by (simp add: test_masks(1))
  obtain tl where "emitted init_state (snd ?run)
                     = EvCreateDirectory (AssetPath test_env ''certs'') perm_0700 # tl"
    using fact[THEN conjunct2, THEN conjunct2, THEN conjunct2, THEN conjunct2, THEN conjunct2, THEN conjunct2, THEN conjunct2, THEN conjunct2, THEN conjunct2, THEN conjunct2, THEN conjunct2, THEN conjunct2, THEN conjunct2, THEN conjunct1] by (rule exE)
  then have c: "hd (emitted init_state (snd ?run)) = EvCreateDirectory ''/opt/zarf/certs'' perm_0700"
    by (simp add: test_paths(4))
  have d: "openfile_calls (emitted init_state (snd ?run))
             = [(''/opt/zarf/certs/zarf-server.key'', [O_WRONLY, O_CREATE, O_TRUNC], perm_0600)]"
    using fact[THEN conjunct2, THEN conjunct2, THEN conjunct2, THEN conjunct2, THEN conjunct2, THEN conjunct2, THEN conjunct2, THEN conjunct2, THEN conjunct2, THEN conjunct2, THEN conjunct2, THEN conjunct2, THEN conjunct2, THEN conjunct2, THEN conjunct2, THEN conjunct2, THEN conjunct1, unfolded test_paths(3)] test_GeneratePKI by (rule mp)
  have pre2: "fst ?run = Inr () \<and>
              no_files (env_Join test_env (AssetPath test_env ''certs'') ''zarf-server.key'') = None \<and>
              env_Join test_env (AssetPath test_env ''certs'') ''zarf-server.key''
                \<noteq> env_Join test_env (AssetPath test_env ''certs'') ''zarf-ca.pem'' \<and>
              env_Join test_env (AssetPath test_env ''certs'') ''zarf-server.key''
                \<noteq> env_Join test_env (AssetPath test_env ''certs'') ''zarf-server.crt''"
    using test_GeneratePKI by (simp add: test_paths(1-3) no_files_def)
  obtain g where g: "files_after umask_022 no_files (emitted init_state (snd ?run))
                       (env_Join test_env (AssetPath test_env ''certs'') ''zarf-server.key'') = Some g"
      "file_mode g = mask_perm umask_022 perm_0600"
    using fact[THEN conjunct2, THEN conjunct2, THEN conjunct2, THEN conjunct2, THEN conjunct2, THEN conjunct2, THEN conjunct2, THEN conjunct2, THEN conjunct2, THEN conjunct2, THEN conjunct2, THEN conjunct2, THEN conjunct2, THEN conjunct2, THEN conjunct2, THEN conjunct2, THEN conjunct2, THEN mp, OF pre2] by blast
  have e: "map_option file_mode (files_after umask_022 no_files (emitted init_state (snd ?run))
             ''/opt/zarf/certs/zarf-server.key'') = Some 384"
    using g by (simp add: test_masks(1) test_paths(3))
  from test_savePrivateKey test_GeneratePKI a b d e c show ?thesis by (intro conjI)
qed

text \<open>
  A key file that exists with mode \<^verbatim>\<open>0644\<close> is not created anew: the key is written to
  it and it keeps its mode, which lets group and others read.
\<close>

theorem key_file_and_directory_modes_counterexample:
  "fst (savePrivateKey test_env (test_key 0) ''server.key'' init_state) = None \<and>
   map_option file_mode (files_after umask_022 old_key_file
     (trace (snd (savePrivateKey test_env (test_key 0) ''server.key'' init_state)))
     ''server.key'') = Some perm_0644 \<and>
   map_option file_blocks (files_after umask_022 old_key_file
     (trace (snd (savePrivateKey test_env (test_key 0) ''server.key'' init_state)))
     ''server.key'') = Some [\<lparr> Type = ''RSA PRIVATE KEY'', Bytes = [48, 193] \<rparr>] \<and>
   perm_0644 \<noteq> perm_0600 \<and>
   perm_0644 AND perm_group_other \<noteq> 0"
  by (simp add: test_savePrivateKey test_savePrivateKey_trace old_key_file_def no_files_def
      open_file_def test_masks perm_values)

section \<open>The files of a bootstrap run\<close>

lemma host_template_cases:
  assumes "newCertificate ev v s = (Inr t0, s1)"
  shows "case env_ParseIP ev host of
           None \<Rightarrow> DNSNames (host_template ev host t0) = [host, ''localhost'', ''*.localhost''] \<and>
                   IPAddresses (host_template ev host t0) = []
         | Some ip \<Rightarrow> IPAddresses (host_template ev host t0) = [ip] \<and>
                      DNSNames (host_template ev host t0) = []"
  using host_template_dns(1,2)[OF assms] host_template_ip(1,2)[OF assms]
  by (auto split: option.splits)

text \<open>
  C4. A successful run of \<^verbatim>\<open>GeneratePKI\<close> opens exactly three files, in this order:
  the results of \<^verbatim>\<open>filepath.Join\<close> on the certificate directory and the names
  \<^verbatim>\<open>zarf-ca.pem\<close>, \<^verbatim>\<open>zarf-server.crt\<close> and \<^verbatim>\<open>zarf-server.key\<close>. It signs two templates,
  the CA's and the host's, and encodes one PEM block to each file: to the first the
  \<^verbatim>\<open>CERTIFICATE\<close> bytes of the self-signed CA template, whose parse is the CA; to the
  second the \<^verbatim>\<open>CERTIFICATE\<close> bytes of the host template signed under that CA with the CA's
  key for the leaf's public key; to the third the \<^verbatim>\<open>RSA PRIVATE KEY\<close> bytes of the leaf's
  key, which is the second key generated and not the CA's. The CA certificate has been
  written; each leaf block has been written when its \<^verbatim>\<open>pem.Encode\<close> returned no error.
\<close>

theorem GeneratePKI_artifacts:
  assumes "GeneratePKI ev host s = (Inr (), s')"
  shows "\<exists>caT leafT caKey leafKey caDer leafDer ca.
           opened_files (emitted s s') =
             [env_Join ev (AssetPath ev ''certs'') ''zarf-ca.pem'',
              env_Join ev (AssetPath ev ''certs'') ''zarf-server.crt'',
              env_Join ev (AssetPath ev ''certs'') ''zarf-server.key''] \<and>
           signed_templates (emitted s s') = [caT, leafT] \<and>
           IsCA caT \<and> \<not> IsCA leafT \<and>
           (case env_ParseIP ev host of
              None \<Rightarrow> DNSNames leafT = [host, ''localhost'', ''*.localhost''] \<and>
                      IPAddresses leafT = []
            | Some ip \<Rightarrow> IPAddresses leafT = [ip] \<and> DNSNames leafT = []) \<and>
           env_GenerateKey ev (rand_draws s + 1) rsaBits = Inr caKey \<and>
           env_GenerateKey ev (rand_draws s + 3) rsaBits = Inr leafKey \<and>
           env_CreateCertificate ev caT caT (rsa_Public caKey) caKey = Inr caDer \<and>
           env_ParseCertificate ev caDer = Inr ca \<and>
           env_CreateCertificate ev leafT ca (rsa_Public leafKey) caKey = Inr leafDer \<and>
           encoded_blocks (emitted s s') =
             [(env_Join ev (AssetPath ev ''certs'') ''zarf-ca.pem'',
               \<lparr> Type = ''CERTIFICATE'', Bytes = caDer \<rparr>),
              (env_Join ev (AssetPath ev ''certs'') ''zarf-server.crt'',
               \<lparr> Type = ''CERTIFICATE'', Bytes = leafDer \<rparr>),
              (env_Join ev (AssetPath ev ''certs'') ''zarf-server.key'',
               \<lparr> Type = ''RSA PRIVATE KEY'', Bytes = env_MarshalPKCS1PrivateKey ev leafKey \<rparr>)] \<and>
           written (emitted s s') (env_Join ev (AssetPath ev ''certs'') ''zarf-ca.pem'')
             \<lparr> Type = ''CERTIFICATE'', Bytes = caDer \<rparr> \<and>
           (env_Encode ev (env_Join ev (AssetPath ev ''certs'') ''zarf-server.crt'')
              \<lparr> Type = ''CERTIFICATE'', Bytes = leafDer \<rparr> = None \<longrightarrow>
            written (emitted s s') (env_Join ev (AssetPath ev ''certs'') ''zarf-server.crt'')
              \<lparr> Type = ''CERTIFICATE'', Bytes = leafDer \<rparr>) \<and>
           (env_Encode ev (env_Join ev (AssetPath ev ''certs'') ''zarf-server.key'')
              \<lparr> Type = ''RSA PRIVATE KEY'', Bytes = env_MarshalPKCS1PrivateKey ev leafKey \<rparr>
              = None \<longrightarrow>
            written (emitted s s') (env_Join ev (AssetPath ev ''certs'') ''zarf-server.key'')
              \<lparr> Type = ''RSA PRIVATE KEY'', Bytes = env_MarshalPKCS1PrivateKey ev leafKey \<rparr>)"
proof -
  let ?dir = "AssetPath ev ''certs''"
  let ?caFile = "env_Join ev ?dir ''zarf-ca.pem''"
  let ?hostCert = "env_Join ev ?dir ''zarf-server.crt''"
  let ?hostKey = "env_Join ev ?dir ''zarf-server.key''"
  from GeneratePKI_success[OF assms] obtain u t0 u1 v t1 v1 ca caKey leafKey where
    nc0: "newCertificate ev validFor u = (Inr t0, u1)"
    and key0: "env_GenerateKey ev (Suc (rand_draws s)) rsaBits = Inr caKey"
    and cr: "ca_result ev ?caFile (ca_template t0) caKey = Inr (ca, caKey)"
    and nc1: "newCertificate ev validFor v = (Inr t1, v1)"
    and key1: "env_GenerateKey ev (rand_draws s + 3) rsaBits = Inr leafKey"
    and lr: "leaf_result ev ?hostCert ?hostKey (host_template ev host t1) ca leafKey caKey = None"
    and em: "emitted s s' =
             EvCreateDirectory ?dir perm_0700 #
             ca_events ev ?caFile (ca_template t0) caKey @
             leaf_events ev ?hostCert ?hostKey (host_template ev host t1) ca leafKey caKey @
             pki_tail ev ?dir ?caFile ca"
    by blast
  let ?caT = "ca_template t0"
  let ?leafT = "host_template ev host t1"
  from ca_events_success_list[OF cr] obtain caDer where
    caDer: "env_CreateCertificate ev ?caT ?caT (rsa_Public caKey) caKey = Inr caDer"
      "env_ParseCertificate ev caDer = Inr ca"
    and A: "ca_events ev ?caFile ?caT caKey =
             [EvCreateCertificate ?caT ?caT (rsa_Public caKey) caKey,
              EvCreate ?caFile None,
              EvEncode ?caFile \<lparr> Type = ''CERTIFICATE'', Bytes = caDer \<rparr> None,
              EvClose ?caFile]"
    by auto
  from leaf_events_success_list[OF lr] obtain leafDer where
    leafDer: "env_CreateCertificate ev ?leafT ca (rsa_Public leafKey) caKey = Inr leafDer"
    and B: "leaf_events ev ?hostCert ?hostKey ?leafT ca leafKey caKey =
             [EvCreateCertificate ?leafT ca (rsa_Public leafKey) caKey,
              EvCreate ?hostCert None,
              EvEncode ?hostCert \<lparr> Type = ''CERTIFICATE'', Bytes = leafDer \<rparr>
                (env_Encode ev ?hostCert \<lparr> Type = ''CERTIFICATE'', Bytes = leafDer \<rparr>),
              EvClose ?hostCert,
              EvOpenFile ?hostKey [O_WRONLY, O_CREATE, O_TRUNC] perm_0600 None,
              EvEncode ?hostKey
                \<lparr> Type = ''RSA PRIVATE KEY'', Bytes = env_MarshalPKCS1PrivateKey ev leafKey \<rparr>
                (env_Encode ev ?hostKey
                   \<lparr> Type = ''RSA PRIVATE KEY'', Bytes = env_MarshalPKCS1PrivateKey ev leafKey \<rparr>),
              EvClose ?hostKey]"
    by blast
  have 1: "opened_files (emitted s s') = [?caFile, ?hostCert, ?hostKey]"
    unfolding em A B by simp
  have 2: "signed_templates (emitted s s') = [?caT, ?leafT]"
    unfolding em by simp
  have 3: "IsCA ?caT" "\<not> IsCA ?leafT"
    using ca_template_fields(1)[OF nc0] host_template_fields(1)[OF nc1] by simp_all
  note 4 = host_template_cases[OF nc1, of host]
  have 5: "env_GenerateKey ev (rand_draws s + 1) rsaBits = Inr caKey" using key0 by simp
  have 6: "encoded_blocks (emitted s s') =
             [(?caFile, \<lparr> Type = ''CERTIFICATE'', Bytes = caDer \<rparr>),
              (?hostCert, \<lparr> Type = ''CERTIFICATE'', Bytes = leafDer \<rparr>),
              (?hostKey, \<lparr> Type = ''RSA PRIVATE KEY'',
                           Bytes = env_MarshalPKCS1PrivateKey ev leafKey \<rparr>)]"
    unfolding em A B by simp
  have 7: "written (emitted s s') ?caFile \<lparr> Type = ''CERTIFICATE'', Bytes = caDer \<rparr>"
    unfolding em A by (simp add: written_def)
  have 8: "env_Encode ev ?hostCert \<lparr> Type = ''CERTIFICATE'', Bytes = leafDer \<rparr> = None \<longrightarrow>
            written (emitted s s') ?hostCert \<lparr> Type = ''CERTIFICATE'', Bytes = leafDer \<rparr>"
    unfolding em B by (simp add: written_def)
  have 9: "env_Encode ev ?hostKey
             \<lparr> Type = ''RSA PRIVATE KEY'', Bytes = env_MarshalPKCS1PrivateKey ev leafKey \<rparr>
             = None \<longrightarrow>
           written (emitted s s') ?hostKey
             \<lparr> Type = ''RSA PRIVATE KEY'', Bytes = env_MarshalPKCS1PrivateKey ev leafKey \<rparr>"
    unfolding em B by (simp add: written_def)
  show ?thesis
    apply (rule exI[of _ ?caT], rule exI[of _ ?leafT], rule exI[of _ caKey],
        rule exI[of _ leafKey], rule exI[of _ caDer], rule exI[of _ leafDer], rule exI[of _ ca])
    using 1 2 3 4 5 key1 caDer leafDer 6 7 8 9 by (intro conjI)
qed


theorem GeneratePKI_artifacts_witness:
  "fst (GeneratePKI test_env ''example.org'' init_state) = Inr () \<and>
   opened_files (emitted init_state (snd (GeneratePKI test_env ''example.org'' init_state))) =
     [''/opt/zarf/certs/zarf-ca.pem'', ''/opt/zarf/certs/zarf-server.crt'',
      ''/opt/zarf/certs/zarf-server.key''] \<and>
   map (\<lambda>(name, b). (name, Type b)) (encoded_blocks (emitted init_state
       (snd (GeneratePKI test_env ''example.org'' init_state)))) =
     [(''/opt/zarf/certs/zarf-ca.pem'', ''CERTIFICATE''),
      (''/opt/zarf/certs/zarf-server.crt'', ''CERTIFICATE''),
      (''/opt/zarf/certs/zarf-server.key'', ''RSA PRIVATE KEY'')] \<and>
   last (encoded_blocks (emitted init_state
       (snd (GeneratePKI test_env ''example.org'' init_state)))) =
     (''/opt/zarf/certs/zarf-server.key'',
      \<lparr> Type = ''RSA PRIVATE KEY'', Bytes = env_MarshalPKCS1PrivateKey test_env (test_key 3) \<rparr>)"
proof -
  let ?run = "GeneratePKI test_env ''example.org'' init_state"
  have h: "?run = (Inr (), snd ?run)"
    using test_GeneratePKI by (simp add: prod_eq_iff)
  from GeneratePKI_artifacts[OF h, unfolded test_paths(1-3)]
  obtain leafKey caDer leafDer where
    files: "opened_files (emitted init_state (snd ?run)) =
       [''/opt/zarf/certs/zarf-ca.pem'', ''/opt/zarf/certs/zarf-server.crt'',
        ''/opt/zarf/certs/zarf-server.key'']"
    and key: "env_GenerateKey test_env (rand_draws init_state + 3) rsaBits = Inr leafKey"
    and blocks: "encoded_blocks (emitted init_state (snd ?run)) =
       [(''/opt/zarf/certs/zarf-ca.pem'', \<lparr> Type = ''CERTIFICATE'', Bytes = caDer \<rparr>),
        (''/opt/zarf/certs/zarf-server.crt'', \<lparr> Type = ''CERTIFICATE'', Bytes = leafDer \<rparr>),
        (''/opt/zarf/certs/zarf-server.key'',
         \<lparr> Type = ''RSA PRIVATE KEY'', Bytes = env_MarshalPKCS1PrivateKey test_env leafKey \<rparr>)]"
    by blast
  have "leafKey = test_key 3"
    using key by (simp add: test_env_def init_state_def)
  with blocks have
    "map (\<lambda>(name, b). (name, Type b)) (encoded_blocks (emitted init_state (snd ?run))) =
       [(''/opt/zarf/certs/zarf-ca.pem'', ''CERTIFICATE''),
        (''/opt/zarf/certs/zarf-server.crt'', ''CERTIFICATE''),
        (''/opt/zarf/certs/zarf-server.key'', ''RSA PRIVATE KEY'')]"
    "last (encoded_blocks (emitted init_state (snd ?run))) =
       (''/opt/zarf/certs/zarf-server.key'',
        \<lparr> Type = ''RSA PRIVATE KEY'', Bytes = env_MarshalPKCS1PrivateKey test_env (test_key 3) \<rparr>)"
    by simp_all
  with test_GeneratePKI files show ?thesis by (intro conjI)
qed

text \<open>
  The names are not \<^verbatim>\<open>ca.pem\<close>, \<^verbatim>\<open>server.crt\<close> and \<^verbatim>\<open>server.key\<close>: a successful run
  opens none of these under the certificate directory.
\<close>

theorem GeneratePKI_artifacts_counterexample:
  "fst (GeneratePKI test_env ''example.org'' init_state) = Inr () \<and>
   AssetPath test_env ''certs'' = ''/opt/zarf/certs'' \<and>
   opened_files (trace (snd (GeneratePKI test_env ''example.org'' init_state))) =
     [''/opt/zarf/certs/zarf-ca.pem'', ''/opt/zarf/certs/zarf-server.crt'',
      ''/opt/zarf/certs/zarf-server.key''] \<and>
   ''/opt/zarf/certs/ca.pem'' \<notin>
     set (opened_files (trace (snd (GeneratePKI test_env ''example.org'' init_state)))) \<and>
   ''/opt/zarf/certs/server.crt'' \<notin>
     set (opened_files (trace (snd (GeneratePKI test_env ''example.org'' init_state)))) \<and>
   ''/opt/zarf/certs/server.key'' \<notin>
     set (opened_files (trace (snd (GeneratePKI test_env ''example.org'' init_state))))"
  by (simp add: run_defs)

section \<open>CA flag and key usage\<close>

lemma x509_env_round_trip: "x509_round_trip x509_env"
proof -
  have bits: "map (\<lambda>x :: u8. x \<noteq> 0) (map (\<lambda>i. of_bool (bit k i)) [0..<9]) = map (bit k) [0..<9]"
    for k :: int
    by simp
  have ku: "horner_sum of_bool 2 (map (bit k) [0..<9]) = take_bit 9 k" for k :: int
    by (rule horner_sum_bit_eq_take_bit)
  show ?thesis
    unfolding x509_round_trip_def x509_env_def test_env_def
    by (auto simp: bits ku simp del: upt_Suc map_map)
qed

lemma leaf_events_cert_block:
  assumes "(name, \<lparr> Type = ''CERTIFICATE'', Bytes = der \<rparr>)
             \<in> set (encoded_blocks (leaf_events ev certFile keyFile t p key pk))"
  shows "env_CreateCertificate ev t p (rsa_Public key) pk = Inr der"
  using assms
  by (auto simp: leaf_events_def key_events_def split: sum.splits option.splits)

lemma take_bit_key_usage: "take_bit 9 (37 :: int) = 37" "take_bit 9 (5 :: int) = 5"
  by simp_all


lemma round_trip_fields:
  assumes "x509_round_trip ev"
    and "env_CreateCertificate ev t parent pub priv = Inr der"
    and "env_ParseCertificate ev der = Inr cert"
  shows "BasicConstraintsValid cert = BasicConstraintsValid t"
    and "IsCA cert = (BasicConstraintsValid t \<and> IsCA t)"
    and "KeyUsage cert = take_bit 9 (KeyUsage t)"
  using assms unfolding x509_round_trip_def by blast+

lemma newCertificate_basic_constraints:
  assumes "newCertificate ev v s = (Inr t0, s1)"
  shows "BasicConstraintsValid (ca_template t0)" "BasicConstraintsValid (host_template ev' host t0)"
  using newCertificate_Inr(8)[OF assms]
  by (simp_all add: ca_template_def host_template_def Let_def split: option.splits)

lemma generateCert_blocks:
  assumes "generateCert ev host certFile keyFile ca caKey v s = (r, s')"
    and "(name, \<lparr> Type = ''CERTIFICATE'', Bytes = der \<rparr>) \<in> set (encoded_blocks (emitted s s'))"
  shows "\<exists>t0 s1 key. newCertificate ev v s = (Inr t0, s1) \<and>
           env_CreateCertificate ev (host_template ev host t0) ca (rsa_Public key) caKey = Inr der"
  using generateCert_trace[OF assms(1)]
proof (elim disjE exE conjE)
  fix f s1 assume "trace s' = trace s"
  then show ?thesis using assms(2) by (simp add: emitted_def)
next
  fix t0 s1 err s2 assume "trace s' = trace s"
  then show ?thesis using assms(2) by (simp add: emitted_def)
next
  fix t0 s1 priv s2 r'
  assume nc: "newCertificate ev v s = (Inr t0, s1)"
    and tr: "trace s' = trace s @
               leaf_events ev certFile keyFile (host_template ev host t0) ca priv caKey"
  have "emitted s s' = leaf_events ev certFile keyFile (host_template ev host t0) ca priv caKey"
    using tr by (rule emitted_append)
  with assms(2) have
    "env_CreateCertificate ev (host_template ev host t0) ca (rsa_Public priv) caKey = Inr der"
    by (auto dest: leaf_events_cert_block)
  with nc show ?thesis by blast
qed

text \<open>
  C7. Every template \<^verbatim>\<open>generateCA\<close> signs has \<open>IsCA\<close> and \<open>BasicConstraintsValid\<close> set and
  the key usage digital signature, key encipherment and certificate sign. Where the
  library's encoding keeps these fields, the CA certificate that \<^verbatim>\<open>generateCA\<close> returns,
  the parse of the bytes signed from that template, is a CA with that key usage. Every
  template \<^verbatim>\<open>generateCert\<close> signs has \<open>IsCA\<close> unset, \<open>BasicConstraintsValid\<close> set and
  the key usage digital signature and key encipherment only, the certificate-sign bit
  being clear, and so has every parse of the certificate bytes it encodes to the
  certificate file.
\<close>

theorem ca_and_leaf_key_usage:
  assumes "x509_round_trip ev"
    and "generateCA ev caFile validFor' s = (r, s')"
    and "x509_round_trip ev2"
    and "generateCert ev2 host certFile keyFile ca caKey validFor2 u = (q, u')"
  shows "(\<forall>t \<in> set (signed_templates (emitted s s')).
            IsCA t \<and> BasicConstraintsValid t \<and>
            KeyUsage t = KeyUsageDigitalSignature OR KeyUsageKeyEncipherment OR KeyUsageCertSign \<and>
            KeyUsage t AND KeyUsageCertSign = KeyUsageCertSign) \<and>
         (\<forall>t \<in> set (signed_templates (emitted u u')).
            \<not> IsCA t \<and> BasicConstraintsValid t \<and>
            KeyUsage t = KeyUsageDigitalSignature OR KeyUsageKeyEncipherment \<and>
            KeyUsage t AND KeyUsageCertSign = 0) \<and>
         (\<forall>cert priv. r = Inr (Inr (cert, priv)) \<longrightarrow>
            IsCA cert \<and> BasicConstraintsValid cert \<and>
            KeyUsage cert
              = KeyUsageDigitalSignature OR KeyUsageKeyEncipherment OR KeyUsageCertSign \<and>
            KeyUsage cert AND KeyUsageCertSign = KeyUsageCertSign \<and>
            (\<exists>t der. signed_templates (emitted s s') = [t] \<and>
               env_CreateCertificate ev t t (rsa_Public priv) priv = Inr der \<and>
               env_ParseCertificate ev der = Inr cert)) \<and>
         (q = Inr None \<longrightarrow> length (signed_templates (emitted u u')) = 1) \<and>
         (\<forall>der cert.
            (certFile, \<lparr> Type = ''CERTIFICATE'', Bytes = der \<rparr>)
              \<in> set (encoded_blocks (emitted u u')) \<and>
            env_ParseCertificate ev2 der = Inr cert \<longrightarrow>
            \<not> IsCA cert \<and> BasicConstraintsValid cert \<and>
            KeyUsage cert = KeyUsageDigitalSignature OR KeyUsageKeyEncipherment \<and>
            KeyUsage cert AND KeyUsageCertSign = 0)"
proof (intro conjI)
  show "\<forall>t \<in> set (signed_templates (emitted s s')).
            IsCA t \<and> BasicConstraintsValid t \<and>
            KeyUsage t = KeyUsageDigitalSignature OR KeyUsageKeyEncipherment OR KeyUsageCertSign \<and>
            KeyUsage t AND KeyUsageCertSign = KeyUsageCertSign"
    using generateCA_templates[OF assms(2)] ca_template_fields newCertificate_basic_constraints(1)
    by (auto simp: KeyUsage_values KeyUsage_bits)
  show "\<forall>t \<in> set (signed_templates (emitted u u')).
            \<not> IsCA t \<and> BasicConstraintsValid t \<and>
            KeyUsage t = KeyUsageDigitalSignature OR KeyUsageKeyEncipherment \<and>
            KeyUsage t AND KeyUsageCertSign = 0"
    using generateCert_templates[OF assms(4)] host_template_fields
      newCertificate_basic_constraints(2)
    by (auto simp: KeyUsage_values KeyUsage_bits)
  show "\<forall>cert priv. r = Inr (Inr (cert, priv)) \<longrightarrow>
            IsCA cert \<and> BasicConstraintsValid cert \<and>
            KeyUsage cert
              = KeyUsageDigitalSignature OR KeyUsageKeyEncipherment OR KeyUsageCertSign \<and>
            KeyUsage cert AND KeyUsageCertSign = KeyUsageCertSign \<and>
            (\<exists>t der. signed_templates (emitted s s') = [t] \<and>
               env_CreateCertificate ev t t (rsa_Public priv) priv = Inr der \<and>
               env_ParseCertificate ev der = Inr cert)"
  proof (intro allI impI)
    fix cert priv assume r: "r = Inr (Inr (cert, priv))"
    from generateCA_templates[OF assms(2)] r obtain t0 s1 priv0 where
      nc: "newCertificate ev validFor' s = (Inr t0, s1)"
      and cr: "ca_result ev caFile (ca_template t0) priv0 = Inr (cert, priv)"
      and ts: "signed_templates (emitted s s') = [ca_template t0]"
      by auto
    from ca_result_Inr[OF cr] obtain der where
      p: "priv = priv0"
      and der: "env_CreateCertificate ev (ca_template t0) (ca_template t0) (rsa_Public priv0) priv0
                  = Inr der"
        "env_ParseCertificate ev der = Inr cert"
      by blast
    note rt = round_trip_fields[OF assms(1) der]
    note tf = ca_template_fields(1,2)[OF nc] newCertificate_basic_constraints(1)[OF nc]
    have "IsCA cert" "BasicConstraintsValid cert" "KeyUsage cert = 37"
      using rt tf by (simp_all add: take_bit_key_usage)
    then show "IsCA cert \<and> BasicConstraintsValid cert \<and>
            KeyUsage cert
              = KeyUsageDigitalSignature OR KeyUsageKeyEncipherment OR KeyUsageCertSign \<and>
            KeyUsage cert AND KeyUsageCertSign = KeyUsageCertSign \<and>
            (\<exists>t der. signed_templates (emitted s s') = [t] \<and>
               env_CreateCertificate ev t t (rsa_Public priv) priv = Inr der \<and>
               env_ParseCertificate ev der = Inr cert)"
      using ts der p by (auto simp: KeyUsage_values KeyUsage_bits)
  qed
  show "q = Inr None \<longrightarrow> length (signed_templates (emitted u u')) = 1"
    using generateCert_templates[OF assms(4)] by auto
  show "\<forall>der cert.
            (certFile, \<lparr> Type = ''CERTIFICATE'', Bytes = der \<rparr>)
              \<in> set (encoded_blocks (emitted u u')) \<and>
            env_ParseCertificate ev2 der = Inr cert \<longrightarrow>
            \<not> IsCA cert \<and> BasicConstraintsValid cert \<and>
            KeyUsage cert = KeyUsageDigitalSignature OR KeyUsageKeyEncipherment \<and>
            KeyUsage cert AND KeyUsageCertSign = 0"
  proof (intro allI impI, elim conjE)
    fix der cert
    assume blk: "(certFile, \<lparr> Type = ''CERTIFICATE'', Bytes = der \<rparr>)
                   \<in> set (encoded_blocks (emitted u u'))"
      and parse: "env_ParseCertificate ev2 der = Inr cert"
    from generateCert_blocks[OF assms(4) blk] obtain t0 s1 key where
      nc: "newCertificate ev2 validFor2 u = (Inr t0, s1)"
      and der: "env_CreateCertificate ev2 (host_template ev2 host t0) ca (rsa_Public key) caKey
                  = Inr der"
      by blast
    note rt = round_trip_fields[OF assms(3) der parse]
    note tf = host_template_fields(1,2)[OF nc, of host]
      newCertificate_basic_constraints(2)[OF nc, of ev2 host]
    have "\<not> IsCA cert" "BasicConstraintsValid cert" "KeyUsage cert = 5"
      using rt tf by (simp_all add: take_bit_key_usage)
    then show "\<not> IsCA cert \<and> BasicConstraintsValid cert \<and>
            KeyUsage cert = KeyUsageDigitalSignature OR KeyUsageKeyEncipherment \<and>
            KeyUsage cert AND KeyUsageCertSign = 0"
      by (simp add: KeyUsage_values KeyUsage_bits)
  qed
qed


lemma test_x509_generateCA:
  "\<exists>cert. fst (generateCA x509_env ''ca.pem'' validFor init_state) = Inr (Inr (cert, test_key 1))"
  by (simp add: run_defs x509_env_def del: upt_Suc)

lemma test_x509_generateCert:
  "fst (generateCert x509_env ''example.org'' ''server.crt'' ''server.key'' test_ca (test_key 0)
         validFor init_state) = Inr None"
  by (simp add: run_defs x509_env_def del: upt_Suc)

theorem ca_and_leaf_key_usage_witness:
  "x509_round_trip x509_env \<and>
   snd (projr (projr (fst (generateCA x509_env ''ca.pem'' validFor init_state)))) = test_key 1 \<and>
   IsCA (fst (projr (projr (fst (generateCA x509_env ''ca.pem'' validFor init_state))))) \<and>
   BasicConstraintsValid
     (fst (projr (projr (fst (generateCA x509_env ''ca.pem'' validFor init_state))))) \<and>
   KeyUsage (fst (projr (projr (fst (generateCA x509_env ''ca.pem'' validFor init_state))))) = 37 \<and>
   fst (generateCert x509_env ''example.org'' ''server.crt'' ''server.key'' test_ca (test_key 0)
          validFor init_state) = Inr None \<and>
   map (\<lambda>t. (IsCA t, BasicConstraintsValid t, KeyUsage t)) (signed_templates (emitted init_state
     (snd (generateCA x509_env ''ca.pem'' validFor init_state)))) = [(True, True, 37)] \<and>
   map (\<lambda>t. (IsCA t, BasicConstraintsValid t, KeyUsage t)) (signed_templates (emitted init_state
     (snd (generateCert x509_env ''example.org'' ''server.crt'' ''server.key'' test_ca (test_key 0)
             validFor init_state)))) = [(False, True, 5)]"
proof -
  let ?ca = "generateCA x509_env ''ca.pem'' validFor init_state"
  let ?leaf = "generateCert x509_env ''example.org'' ''server.crt'' ''server.key'' test_ca
                 (test_key 0) validFor init_state"
  let ?cs = "signed_templates (emitted init_state (snd ?ca))"
  let ?ls = "signed_templates (emitted init_state (snd ?leaf))"
  have h1: "?ca = (fst ?ca, snd ?ca)" by simp
  have h2: "?leaf = (fst ?leaf, snd ?leaf)" by simp
  note fact = ca_and_leaf_key_usage[OF x509_env_round_trip h1 x509_env_round_trip h2]
  obtain cert where cert: "fst ?ca = Inr (Inr (cert, test_key 1))"
    using test_x509_generateCA by blast
  note ca_facts = fact[THEN conjunct2, THEN conjunct2, THEN conjunct1, rule_format, OF cert]
  have c1: "IsCA cert" "BasicConstraintsValid cert" "KeyUsage cert = 37"
    using ca_facts by (simp_all add: KeyUsage_values KeyUsage_bits)
  obtain c where cs: "?cs = [c]" using ca_facts by blast
  have c2: "IsCA c \<and> BasicConstraintsValid c \<and> KeyUsage c = 37"
    using fact[THEN conjunct1] cs by (simp add: KeyUsage_values KeyUsage_bits)
  have "length ?ls = 1"
    using fact[THEN conjunct2, THEN conjunct2, THEN conjunct2, THEN conjunct1]
      test_x509_generateCert by (rule mp)
  then obtain l where ls: "?ls = [l]" using singleton_list by blast
  have l2: "\<not> IsCA l \<and> BasicConstraintsValid l \<and> KeyUsage l = 5"
    using fact[THEN conjunct2, THEN conjunct1] ls by (simp add: KeyUsage_values KeyUsage_bits)
  have p: "snd (projr (projr (fst ?ca))) = test_key 1" "fst (projr (projr (fst ?ca))) = cert"
    using cert by simp_all
  show ?thesis
    using x509_env_round_trip p c1 test_x509_generateCert c2 l2 cs ls by simp
qed

end
